theory Spec2Isabelle
  imports Complex_Main "HOL-Library.Word" "HOL-Library.Sublist"
begin

section \<open>Python values\<close>

text \<open>
  A Python \<open>str\<close> is a sequence of Unicode code points and a \<open>bytes\<close> object a
  sequence of octets. String literals of the source are written \<open>py ''...''\<close>.
\<close>

type_synonym pystr = "nat list"
type_synonym pybytes = "8 word list"

abbreviation py :: "string \<Rightarrow> pystr" where
  "py s \<equiv> map of_char s"

text \<open>Slices \<open>xs[i:]\<close> and \<open>xs[:j]\<close>: a negative index counts from the end and is
  clipped at the start of the sequence.\<close>

definition slice_from :: "int \<Rightarrow> 'a list \<Rightarrow> 'a list" where
  "slice_from i xs = (if i < 0 then drop (nat (int (length xs) + i)) xs else drop (nat i) xs)"

definition slice_to :: "int \<Rightarrow> 'a list \<Rightarrow> 'a list" where
  "slice_to j xs = (if j < 0 then take (nat (int (length xs) + j)) xs else take (nat j) xs)"

definition startswith :: "pystr \<Rightarrow> pystr \<Rightarrow> bool" where
  "startswith s p = (take (length p) s = p)"

definition endswith :: "pystr \<Rightarrow> pystr \<Rightarrow> bool" where
  "endswith s p = (length p \<le> length s \<and> drop (length s - length p) s = p)"

text \<open>\<open>sep.join(xs)\<close>.\<close>

fun str_join :: "pystr \<Rightarrow> pystr list \<Rightarrow> pystr" where
  "str_join sep [] = []"
| "str_join sep [x] = x"
| "str_join sep (x # y # ys) = x @ sep @ str_join sep (y # ys)"

text \<open>\<open>sub in s\<close> for strings: \<open>sub\<close> occurs as a contiguous run of \<open>s\<close>.\<close>

fun str_contains :: "pystr \<Rightarrow> pystr \<Rightarrow> bool" where
  "str_contains [] sub = (sub = [])"
| "str_contains (c # cs) sub = (startswith (c # cs) sub \<or> str_contains cs sub)"

text \<open>\<open>str.splitlines()\<close>: the line boundaries are LF, VT, FF, CR, CR LF, FS, GS, RS, NEL,
  LS and PS; the boundaries are dropped, and a boundary at the very end opens no further
  line. \<open>cur\<close> is the line read so far.\<close>

definition is_linebreak :: "nat \<Rightarrow> bool" where
  "is_linebreak c = (c = 0x0A \<or> c = 0x0B \<or> c = 0x0C \<or> c = 0x0D \<or> c = 0x1C \<or> c = 0x1D
     \<or> c = 0x1E \<or> c = 0x85 \<or> c = 0x2028 \<or> c = 0x2029)"

fun splitlines_from :: "pystr \<Rightarrow> pystr \<Rightarrow> pystr list" where
  "splitlines_from cur [] = (if cur = [] then [] else [cur])"
| "splitlines_from cur (c # cs) =
     (if is_linebreak c then
        (if c = 0x0D \<and> take 1 cs = [0x0A] then cur # splitlines_from [] (drop 1 cs)
         else cur # splitlines_from [] cs)
      else splitlines_from (cur @ [c]) cs)"

definition splitlines :: "pystr \<Rightarrow> pystr list" where
  "splitlines s = splitlines_from [] s"

text \<open>\<open>str.strip()\<close> removes the characters for which \<open>str.isspace\<close> holds from both
  ends.\<close>

definition is_space :: "nat \<Rightarrow> bool" where
  "is_space c = ((0x09 \<le> c \<and> c \<le> 0x0D) \<or> (0x1C \<le> c \<and> c \<le> 0x20) \<or> c = 0x85 \<or> c = 0xA0
     \<or> c = 0x1680 \<or> (0x2000 \<le> c \<and> c \<le> 0x200A) \<or> c = 0x2028 \<or> c = 0x2029
     \<or> c = 0x202F \<or> c = 0x205F \<or> c = 0x3000)"

definition strip :: "pystr \<Rightarrow> pystr" where
  "strip s = rev (dropWhile is_space (rev (dropWhile is_space s)))"

text \<open>\<open>str(n)\<close> for a natural number.\<close>

fun str_of_nat :: "nat \<Rightarrow> pystr" where
  "str_of_nat n = (if n < 10 then [48 + n] else str_of_nat (n div 10) @ [48 + n mod 10])"

declare str_of_nat.simps [simp del]

section \<open>Exceptions and the state of a request\<close>

text \<open>
  The exception classes the source raises, catches or can receive from a library call.
  Every one of them derives from \<open>Exception\<close>; \<open>UnicodeDecodeError\<close>,
  \<open>UnicodeEncodeError\<close> and LangChain's \<open>OutputParserException\<close> derive from
  \<open>ValueError\<close>. An \<open>HTTPException\<close> carries a status code and a detail.
\<close>

datatype exc_class =
    ValueError | UnicodeDecodeError | UnicodeEncodeError | OutputParserException
  | RuntimeError | ImportError | TypeError | AttributeError | FileNotFoundError
  | OtherException

datatype exn = HTTPException nat pystr | Raised exc_class pystr

text \<open>Where the interpreter or a library raises, the model keeps the class and shortens
  the message.\<close>

fun is_http_exception :: "exn \<Rightarrow> bool" where
  "is_http_exception (HTTPException _ _) = True"
| "is_http_exception (Raised _ _) = False"

fun is_value_error :: "exn \<Rightarrow> bool" where
  "is_value_error (Raised c _) =
     (c = ValueError \<or> c = UnicodeDecodeError \<or> c = UnicodeEncodeError \<or> c = OutputParserException)"
| "is_value_error (HTTPException _ _) = False"

fun is_class :: "exc_class \<Rightarrow> exn \<Rightarrow> bool" where
  "is_class k (Raised c _) = (c = k)"
| "is_class k (HTTPException _ _) = False"

text \<open>\<open>str(e)\<close>: the message of an exception; Starlette prints an \<open>HTTPException\<close> as
  its status code, a colon and its detail.\<close>

fun exc_str :: "exn \<Rightarrow> pystr" where
  "exc_str (Raised _ m) = m"
| "exc_str (HTTPException code d) = str_of_nat code @ py '': '' @ d"

text \<open>A computation over a state that returns a value or raises.\<close>

type_synonym ('s, 'a) prog = "'s \<Rightarrow> (exn + 'a) \<times> 's"

definition ret :: "'a \<Rightarrow> ('s, 'a) prog" where
  "ret x = (\<lambda>s. (Inr x, s))"

definition throw :: "exn \<Rightarrow> ('s, 'a) prog" where
  "throw e = (\<lambda>s. (Inl e, s))"

definition bind :: "('s, 'a) prog \<Rightarrow> ('a \<Rightarrow> ('s, 'b) prog) \<Rightarrow> ('s, 'b) prog" where
  "bind m f = (\<lambda>s. case m s of (Inl e, s') \<Rightarrow> (Inl e, s') | (Inr x, s') \<Rightarrow> f x s')"

text \<open>\<open>try: m  except Exception as e: h e\<close>; a handler for one class re-raises the
  others itself.\<close>

definition try_except :: "('s, 'a) prog \<Rightarrow> (exn \<Rightarrow> ('s, 'a) prog) \<Rightarrow> ('s, 'a) prog" where
  "try_except m h = (\<lambda>s. case m s of (Inl e, s') \<Rightarrow> h e s' | (Inr x, s') \<Rightarrow> (Inr x, s'))"

definition lift :: "exn + 'a \<Rightarrow> ('s, 'a) prog" where
  "lift r = (\<lambda>s. (r, s))"

section \<open>Codecs and paths\<close>

text \<open>
  One step of CPython's UTF-8 decoder on a non-empty input: either a code point and the
  number of octets it took, or a malformed prefix and its length (the octets that
  \<open>errors='replace'\<close> turns into one U+FFFD). Overlong forms, surrogates and code points
  above U+10FFFF are malformed. A sequence cut off by the end of the input is malformed
  up to the end.
\<close>

datatype utf8_step = Decoded nat nat | Malformed nat

definition is_cont :: "nat \<Rightarrow> bool" where
  "is_cont b = (0x80 \<le> b \<and> b \<le> 0xBF)"

definition second_ok :: "nat \<Rightarrow> nat \<Rightarrow> bool" where
  "second_ok b0 b1 = (is_cont b1
     \<and> (if b0 = 0xE0 then 0xA0 \<le> b1 else if b0 = 0xED then b1 < 0xA0
        else if b0 = 0xF0 then 0x90 \<le> b1 else if b0 = 0xF4 then b1 < 0x90 else True))"

fun utf8_next :: "nat list \<Rightarrow> utf8_step" where
  "utf8_next [] = Malformed 0"
| "utf8_next (b0 # bs) =
     (if b0 < 0x80 then Decoded b0 1
      else if b0 < 0xC2 \<or> 0xF4 < b0 then Malformed 1
      else if b0 < 0xE0 then
        (case bs of
           [] \<Rightarrow> Malformed 1
         | b1 # _ \<Rightarrow> if is_cont b1 then Decoded ((b0 - 0xC0) * 64 + (b1 - 0x80)) 2
                    else Malformed 1)
      else if b0 < 0xF0 then
        (case bs of
           [] \<Rightarrow> Malformed 1
         | [b1] \<Rightarrow> if second_ok b0 b1 then Malformed 2 else Malformed 1
         | b1 # b2 # _ \<Rightarrow>
             if \<not> second_ok b0 b1 then Malformed 1
             else if \<not> is_cont b2 then Malformed 2
             else Decoded ((b0 - 0xE0) * 4096 + (b1 - 0x80) * 64 + (b2 - 0x80)) 3)
      else
        (case bs of
           [] \<Rightarrow> Malformed 1
         | [b1] \<Rightarrow> if second_ok b0 b1 then Malformed 2 else Malformed 1
         | [b1, b2] \<Rightarrow>
             if \<not> second_ok b0 b1 then Malformed 1
             else if \<not> is_cont b2 then Malformed 2 else Malformed 3
         | b1 # b2 # b3 # _ \<Rightarrow>
             if \<not> second_ok b0 b1 then Malformed 1
             else if \<not> is_cont b2 then Malformed 2
             else if \<not> is_cont b3 then Malformed 3
             else Decoded ((b0 - 0xF0) * 262144 + (b1 - 0x80) * 4096 + (b2 - 0x80) * 64
                           + (b3 - 0x80)) 4))"

text \<open>\<open>bytes.decode('utf-8')\<close>: \<open>None\<close> stands for \<open>UnicodeDecodeError\<close>.\<close>

fun utf8_decode_nat :: "nat list \<Rightarrow> pystr option" where
  "utf8_decode_nat [] = Some []"
| "utf8_decode_nat (b # bs) =
     (case utf8_next (b # bs) of
        Decoded c n \<Rightarrow> map_option ((#) c) (utf8_decode_nat (drop (n - 1) bs))
      | Malformed n \<Rightarrow> None)"

definition utf8_decode :: "pybytes \<Rightarrow> pystr option" where
  "utf8_decode bs = utf8_decode_nat (map unat bs)"

text \<open>\<open>bytes.decode('utf-8', errors='replace')\<close>.\<close>

fun utf8_decode_replace_nat :: "nat list \<Rightarrow> pystr" where
  "utf8_decode_replace_nat [] = []"
| "utf8_decode_replace_nat (b # bs) =
     (case utf8_next (b # bs) of
        Decoded c n \<Rightarrow> c # utf8_decode_replace_nat (drop (n - 1) bs)
      | Malformed n \<Rightarrow> 0xFFFD # utf8_decode_replace_nat (drop (n - 1) bs))"

definition utf8_decode_replace :: "pybytes \<Rightarrow> pystr" where
  "utf8_decode_replace bs = utf8_decode_replace_nat (map unat bs)"

text \<open>\<open>bytes.decode('latin-1')\<close>: every octet is the code point of the same number; it
  never fails.\<close>

definition latin1_decode :: "pybytes \<Rightarrow> pystr" where
  "latin1_decode bs = map unat bs"

text \<open>\<open>str.encode('utf-8')\<close>, which a text file opened with \<open>encoding='utf-8'\<close> applies
  on writing: a surrogate cannot be encoded (\<open>UnicodeEncodeError\<close>, here \<open>None\<close>).\<close>

definition utf8_encode_char :: "nat \<Rightarrow> nat list option" where
  "utf8_encode_char c =
     (if c < 0x80 then Some [c]
      else if c < 0x800 then Some [0xC0 + c div 64, 0x80 + c mod 64]
      else if 0xD800 \<le> c \<and> c \<le> 0xDFFF then None
      else if c < 0x10000 then Some [0xE0 + c div 4096, 0x80 + (c div 64) mod 64, 0x80 + c mod 64]
      else if c < 0x110000 then
        Some [0xF0 + c div 262144, 0x80 + (c div 4096) mod 64, 0x80 + (c div 64) mod 64,
              0x80 + c mod 64]
      else None)"

fun utf8_encode_nat :: "pystr \<Rightarrow> nat list option" where
  "utf8_encode_nat [] = Some []"
| "utf8_encode_nat (c # cs) =
     (case utf8_encode_char c of
        None \<Rightarrow> None
      | Some bs \<Rightarrow> map_option ((@) bs) (utf8_encode_nat cs))"

definition utf8_encode :: "pystr \<Rightarrow> pybytes option" where
  "utf8_encode s = map_option (map of_nat) (utf8_encode_nat s)"

text \<open>The functions of \<open>os.path\<close> the source calls, on a POSIX system.\<close>

definition slash :: nat where
  "slash = 0x2F"

definition os_path_join :: "pystr \<Rightarrow> pystr \<Rightarrow> pystr" where
  "os_path_join a b =
     (if startswith b [slash] then b
      else if a = [] \<or> endswith a [slash] then a @ b
      else a @ [slash] @ b)"

text \<open>\<open>p.rfind(c) + 1\<close>: the index after the last \<open>c\<close>, or 0.\<close>

fun after_last :: "nat \<Rightarrow> pystr \<Rightarrow> nat" where
  "after_last c [] = 0"
| "after_last c (x # xs) =
     (if c \<in> set xs then Suc (after_last c xs) else if x = c then 1 else 0)"

definition os_path_basename :: "pystr \<Rightarrow> pystr" where
  "os_path_basename p = drop (after_last slash p) p"

definition os_path_dirname :: "pystr \<Rightarrow> pystr" where
  "os_path_dirname p =
     (let head = take (after_last slash p) p
      in if head \<noteq> [] \<and> head \<noteq> replicate (length head) slash
         then rev (dropWhile (\<lambda>c. c = slash) (rev head)) else head)"

text \<open>\<open>os.path.splitext\<close>: the extension starts at the last dot of the last component,
  unless only dots come before it there.\<close>

definition os_path_splitext :: "pystr \<Rightarrow> pystr \<times> pystr" where
  "os_path_splitext p =
     (let sep_index = after_last slash p; dot_end = after_last 0x2E p
      in if sep_index < dot_end
            \<and> (\<exists>c \<in> set (take (dot_end - 1 - sep_index) (drop sep_index p)). c \<noteq> 0x2E)
         then (take (dot_end - 1) p, drop (dot_end - 1) p) else (p, []))"

section \<open>The environment of the service\<close>

text \<open>The result of \<open>subprocess.run\<close> with captured text output.\<close>

record completed_process =
  returncode :: int
  stdout :: pystr
  stderr :: pystr

text \<open>What a chain returns from \<open>ainvoke\<close>: a string, a value of another type that has
  a length (a list, say), or a value of another type that has none.\<close>

datatype chain_output = StrOutput pystr | SizedOutput | OtherOutput

type_synonym chain = "(pystr \<times> pystr) list \<Rightarrow> exn + chain_output"

text \<open>A PDF as PyMuPDF presents it: per page its plain text, its link annotations (a URI
  and the rectangle the link covers, either of which may be missing) and its words with
  their bounding boxes.\<close>

record rect =
  rect_x0 :: real
  rect_y0 :: real
  rect_x1 :: real
  rect_y1 :: real

record pdf_link =
  link_uri :: "pystr option"
  link_from :: "rect option"

record pdf_page =
  page_text :: pystr
  page_links :: "pdf_link list"
  page_words :: "(real \<times> real \<times> real \<times> real \<times> pystr) list"

text \<open>The upload as FastAPI hands it over.\<close>

record upload_file =
  filename :: "pystr option"
  content_type :: "pystr option"
  file_content :: pybytes

text \<open>The parsed \<open>Authorization\<close> header: \<open>HTTPAuthorizationCredentials\<close>.\<close>

record http_credentials =
  scheme :: pystr
  credentials :: pystr

text \<open>A column of a \<open>user_usage\<close> row as the store returns it, and the response of the
  read: \<open>data\<close> is the row, or nothing.\<close>

datatype column = Null | IntVal int

record usage_response =
  data :: "(pystr \<rightharpoonup> column) option"

text \<open>The row \<open>insert_resume_record\<close> writes, and the message given to the email
  provider.\<close>

record resume_row =
  row_id :: pystr
  created_at :: pystr
  resume_link :: pystr
  user_id :: pystr

record email_params =
  email_from :: pystr
  email_to :: "pystr list"
  subject :: pystr
  html :: pystr

text \<open>The request body of \<open>/convert-json-to-latex\<close> (\<open>models.py\<close>).\<close>

record basic_info =
  fullName :: pystr
  phone :: pystr
  email :: pystr
  linkedin :: pystr
  github :: pystr
  website :: "pystr option"

record education_item =
  edu_id :: pystr
  institution :: pystr
  edu_location :: pystr
  degree :: pystr
  minor :: "pystr option"
  edu_startDate :: pystr
  edu_endDate :: "pystr option"
  edu_isPresent :: bool

record experience_item =
  exp_id :: pystr
  organization :: pystr
  jobTitle :: pystr
  exp_location :: pystr
  exp_startDate :: pystr
  exp_endDate :: "pystr option"
  exp_isPresent :: bool
  exp_description :: "pystr list"

record project_item =
  proj_id :: pystr
  proj_name :: pystr
  technologies :: pystr
  proj_startDate :: pystr
  proj_endDate :: "pystr option"
  proj_isPresent :: bool
  proj_description :: "pystr list"

record skills_info =
  languages :: pystr
  frameworks :: pystr
  developerTools :: pystr
  libraries :: pystr

record resume_data =
  basicInfo :: basic_info
  education :: "education_item list"
  experience :: "experience_item list"
  projects :: "project_item list"
  skills :: skills_info

text \<open>
  Everything outside the repository is a parameter: the interpreter's Unicode case mapping,
  the working directory, the random identifiers and the clock, the values the source leaves
  to be configured (the two signing secrets, which are \<open>None\<close> as shipped, and the
  template of \<open>prompts.py\<close>), the two chains built at start-up, the external programs
  and parsers, PyJWT, FastAPI's \<open>HTTPBearer()\<close> dependency, which turns the value of the
  \<open>Authorization\<close> header (or its absence) into credentials or raises, and the calls to
  the hosted store, bucket and email provider. A call that can raise returns the exception
  on the left.
\<close>

record env =
  str_lower :: "pystr \<Rightarrow> pystr"
  getcwd :: pystr
  uuid4 :: "nat \<Rightarrow> pystr"
  utcnow_isoformat :: pystr
  LATEX_TEMPLATE :: pystr
  auth_secret :: "pystr option"
  email_secret :: "pystr option"
  resume_tailoring_chain :: "chain option"
  latex_conversion_chain :: "chain option"
  pdflatex :: "pystr list \<Rightarrow> pystr \<Rightarrow> (pystr \<rightharpoonup> pybytes)
                 \<Rightarrow> (exn + completed_process) \<times> (pystr \<rightharpoonup> pybytes)"
  fitz_open :: "pybytes \<Rightarrow> exn + pdf_page list"
  docx_Document :: "pybytes \<Rightarrow> exn + pystr list"
  textract_process :: "pybytes \<Rightarrow> exn + pybytes"
  antiword :: "pybytes \<Rightarrow> exn + pybytes"
  jwt_decode :: "pystr \<Rightarrow> pystr \<Rightarrow> exn + (pystr \<rightharpoonup> pystr)"
  http_bearer :: "pystr option \<Rightarrow> exn + http_credentials"
  usage_select :: "pystr \<Rightarrow> exn + usage_response option"
  usage_update :: "pystr \<Rightarrow> int \<Rightarrow> int \<Rightarrow> exn option"
  storage_upload :: "pystr \<Rightarrow> pybytes \<Rightarrow> exn option"
  storage_get_public_url :: "pystr \<Rightarrow> exn + pystr"
  resume_insert :: "resume_row \<Rightarrow> exn option"
  resend_send :: "email_params \<Rightarrow> exn option"
  model_dump_json :: "resume_data \<Rightarrow> pystr"

text \<open>The calls a request makes to the outside, in the order it makes them.\<close>

datatype ext_call =
    UsageSelect pystr
  | UsageUpdate pystr int int
  | ChainInvoke "(pystr \<times> pystr) list"
  | Pdflatex "pystr list" pystr
  | StorageUpload pystr pybytes
  | StorageGetPublicUrl pystr
  | ResumeInsert resume_row
  | ResendSend email_params

text \<open>The state a request works on: the local files (a path has a content or does not
  exist), the number of identifiers drawn so far, and the calls made to the outside.\<close>

record world =
  files :: "pystr \<rightharpoonup> pybytes"
  uuid_count :: nat
  calls :: "ext_call list"

definition record_call :: "ext_call \<Rightarrow> world \<Rightarrow> world" where
  "record_call c w = w\<lparr>calls := calls w @ [c]\<rparr>"

definition path_exists :: "pystr \<Rightarrow> (world, bool) prog" where
  "path_exists p = (\<lambda>w. (Inr (files w p \<noteq> None), w))"

definition getsize :: "pystr \<Rightarrow> (world, nat) prog" where
  "getsize p = (\<lambda>w. case files w p of
       None \<Rightarrow> (Inl (Raised FileNotFoundError p), w)
     | Some bs \<Rightarrow> (Inr (length bs), w))"

definition read_binary :: "pystr \<Rightarrow> (world, pybytes) prog" where
  "read_binary p = (\<lambda>w. case files w p of
       None \<Rightarrow> (Inl (Raised FileNotFoundError p), w)
     | Some bs \<Rightarrow> (Inr bs, w))"

definition write_binary :: "pystr \<Rightarrow> pybytes \<Rightarrow> (world, unit) prog" where
  "write_binary p bs = (\<lambda>w. (Inr (), w\<lparr>files := (files w)(p \<mapsto> bs)\<rparr>))"

section \<open>\<open>latex_utils.py\<close> and \<open>latex_converter.py\<close>\<close>

text \<open>\<open>write_latex_to_file\<close>: a fresh identifier names the file; opening it creates it, and
  writing a string that has no UTF-8 encoding raises and leaves it empty.\<close>

definition write_latex_to_file :: "env \<Rightarrow> pystr \<Rightarrow> pystr \<Rightarrow> (world, pystr) prog" where
  "write_latex_to_file e latex_content output_dir = (\<lambda>w.
     let unique_id = uuid4 e (uuid_count w);
         tex_filename = unique_id @ py ''.tex'';
         tex_path = os_path_join output_dir tex_filename;
         w1 = w\<lparr>uuid_count := Suc (uuid_count w)\<rparr>
     in case utf8_encode latex_content of
          None \<Rightarrow> (Inl (Raised UnicodeEncodeError (py ''surrogates not allowed'')),
                    w1\<lparr>files := (files w1)(tex_path \<mapsto> [])\<rparr>)
        | Some bs \<Rightarrow> (Inr tex_path, w1\<lparr>files := (files w1)(tex_path \<mapsto> bs)\<rparr>))"

definition build_pdflatex_command :: "pystr \<Rightarrow> pystr \<Rightarrow> pystr list" where
  "build_pdflatex_command tex_path output_dir =
     [py ''pdflatex'', py ''-interaction=nonstopmode'', py ''-output-directory'', output_dir,
      tex_path]"

text \<open>\<open>run_pdflatex_command\<close>: \<open>subprocess.run\<close> with \<open>check=False\<close> returns the
  completed process whatever its exit status; it raises when the program cannot be started
  or its output cannot be decoded. The program changes the files.\<close>

definition run_pdflatex_command :: "env \<Rightarrow> pystr list \<Rightarrow> pystr \<Rightarrow> (world, completed_process) prog"
  where
  "run_pdflatex_command e pdflatex_cmd output_dir = (\<lambda>w.
     case pdflatex e pdflatex_cmd output_dir (files w) of
       (r, fs) \<Rightarrow> (r, record_call (Pdflatex pdflatex_cmd output_dir) (w\<lparr>files := fs\<rparr>)))"

definition read_pdf_file :: "pystr \<Rightarrow> (world, pybytes) prog" where
  "read_pdf_file pdf_path = read_binary pdf_path"

definition get_pdf_and_tex_filenames :: "pystr \<Rightarrow> pystr \<times> pystr" where
  "get_pdf_and_tex_filenames tex_path =
     (let base = fst (os_path_splitext (os_path_basename tex_path));
          pdf_filename = base @ py ''.pdf'';
          pdf_path = os_path_join (os_path_dirname tex_path) pdf_filename
      in (pdf_filename, pdf_path))"

definition format_pdflatex_error :: "pystr \<Rightarrow> int \<Rightarrow> pystr" where
  "format_pdflatex_error err num_lines =
     (let lines = splitlines err
      in if lines \<noteq> [] then str_join (py ''\<newline>'') (slice_from (- num_lines) lines)
         else py ''No stderr output.'')"

text \<open>\<open>convert_latex_to_pdf\<close>. Files are paths with a content, so
  \<open>os.makedirs(output_dir, exist_ok=True)\<close> has nothing to do. The PDF counts when it
  exists and its size is positive, whatever \<open>process.returncode\<close> is; the handlers
  re-raise an \<open>HTTPException\<close> and wrap every other exception.\<close>

definition pdf_failed_detail :: pystr where
  "pdf_failed_detail =
     py ''PDF generation failed - output file not found or empty. pdflatex stderr (last 20 lines):\<newline>''"

definition convert_latex_to_pdf :: "env \<Rightarrow> pystr \<Rightarrow> (world, pybytes \<times> pystr) prog" where
  "convert_latex_to_pdf e latex_content =
     try_except
       (let output_dir = os_path_join (getcwd e) (py ''latex_output'') in
        bind (write_latex_to_file e latex_content output_dir) (\<lambda>tex_path.
        let (pdf_filename, pdf_path) = get_pdf_and_tex_filenames tex_path;
            pdflatex_cmd = build_pdflatex_command tex_path output_dir in
        bind (run_pdflatex_command e pdflatex_cmd output_dir) (\<lambda>process.
        bind (path_exists pdf_path) (\<lambda>found.
        bind (if found then bind (getsize pdf_path) (\<lambda>n. ret (0 < n)) else ret False) (\<lambda>usable.
        if usable then
          bind (read_pdf_file pdf_path) (\<lambda>pdf_content. ret (pdf_content, pdf_filename))
        else
          throw (HTTPException 500
                   (pdf_failed_detail @ format_pdflatex_error (stderr process) 20)))))))
       (\<lambda>x. if is_http_exception x then throw x
            else throw (HTTPException 500 (py ''Failed to convert LaTeX to PDF: '' @ exc_str x)))"

section \<open>\<open>resume_processor.py\<close>\<close>

text \<open>\<open>chain.ainvoke(inputs)\<close>; a chain that is \<open>None\<close> has no such attribute.\<close>

definition ainvoke :: "chain option \<Rightarrow> (pystr \<times> pystr) list \<Rightarrow> (world, chain_output) prog" where
  "ainvoke ch inputs = (\<lambda>w.
     case ch of
       None \<Rightarrow> (Inl (Raised AttributeError
                       (py ''NoneType object has no attribute ainvoke'')), w)
     | Some c \<Rightarrow> (c inputs, record_call (ChainInvoke inputs) w))"

text \<open>The two slices of \<open>generate_latex_resume\<close> that take the code-fence markers off the
  model's output.\<close>

definition strip_code_fence :: "pystr \<Rightarrow> pystr" where
  "strip_code_fence latex_resume =
     (let r1 = (if startswith latex_resume (py ''```latex\<newline>'')
                then slice_from 8 latex_resume else latex_resume);
          r2 = (if endswith r1 (py ''\<newline>```'') then slice_to (- 4) r1 else r1)
      in r2)"

definition generate_latex_resume :: "env \<Rightarrow> pystr \<Rightarrow> chain option \<Rightarrow> (world, pystr) prog" where
  "generate_latex_resume e resume_content ch =
     (if resume_content = [] then throw (Raised ValueError (py ''Resume content cannot be empty''))
      else
        try_except
          (bind (ainvoke ch [(py ''resume_content'', resume_content),
                             (py ''latex_template'', LATEX_TEMPLATE e)]) (\<lambda>latex_resume.
           case latex_resume of
             StrOutput s \<Rightarrow> ret (strip_code_fence s)
           | SizedOutput \<Rightarrow> throw (Raised RuntimeError (py ''Model output is not a string''))
           | OtherOutput \<Rightarrow> throw (Raised RuntimeError (py ''Model output is not a string''))))
          (\<lambda>x. throw (Raised RuntimeError (py ''LaTeX conversion failed: '' @ exc_str x))))"

text \<open>\<open>generate_tailored_resume\<close>. The length of the output is logged before its type
  is tested: an output without a length raises \<open>TypeError\<close> there, and an output that
  has a length and is not a string fails the type test. Like every exception in the
  \<open>try\<close> block, both leave as a \<open>RuntimeError\<close>.\<close>

definition refusal_patterns :: "pystr list" where
  "refusal_patterns =
     [py ''provide the content'', py ''ready to help'', py ''cannot fulfill'',
      py ''i need the resume'']"

definition generate_tailored_resume ::
  "env \<Rightarrow> pystr \<Rightarrow> pystr \<Rightarrow> chain option \<Rightarrow> (world, pystr) prog" where
  "generate_tailored_resume e resume_content job_description ch =
     (if resume_content = [] \<or> job_description = [] then
        throw (Raised ValueError (py ''Resume content and job description cannot be empty.''))
      else
        try_except
          (bind (ainvoke ch [(py ''resume_content'', resume_content),
                             (py ''job_description'', job_description)]) (\<lambda>tailored_resume.
           case tailored_resume of
             OtherOutput \<Rightarrow> throw (Raised TypeError (py ''object has no len()''))
           | SizedOutput \<Rightarrow>
               throw (Raised RuntimeError (py ''Failed to generate valid resume text.''))
           | StrOutput s \<Rightarrow>
               if strip s = [] then
                 throw (Raised RuntimeError (py ''Failed to generate valid resume text.''))
               else if length s < 100
                       \<and> list_ex (str_contains (str_lower e s)) refusal_patterns then
                 throw (Raised RuntimeError
                   (py ''Failed to process the input resume/JD. Please check the input data.''))
               else ret (strip s)))
          (\<lambda>x. if is_class OutputParserException x
               then throw (Raised RuntimeError (py ''Failed to parse output: '' @ exc_str x))
               else throw (Raised RuntimeError (py ''Processing failed: '' @ exc_str x))))"

section \<open>\<open>usage.py\<close>\<close>

text \<open>The read of the \<open>user_usage\<close> row and the update of its two counters, as calls
  to the store.\<close>

definition select_usage :: "env \<Rightarrow> pystr \<Rightarrow> (world, usage_response option) prog" where
  "select_usage e uid = (\<lambda>w. (usage_select e uid, record_call (UsageSelect uid) w))"

definition update_usage :: "env \<Rightarrow> pystr \<Rightarrow> int \<Rightarrow> int \<Rightarrow> (world, unit) prog" where
  "update_usage e uid new_daily new_monthly = (\<lambda>w.
     (case usage_update e uid new_daily new_monthly of Some x \<Rightarrow> Inl x | None \<Rightarrow> Inr (),
      record_call (UsageUpdate uid new_daily new_monthly) w))"

text \<open>\<open>data.get(key, 0)\<close> on the row, and \<open>v >= n\<close>, which raises \<open>TypeError\<close> when
  \<open>v\<close> is \<open>None\<close>.\<close>

definition get_counter :: "(pystr \<rightharpoonup> column) \<Rightarrow> pystr \<Rightarrow> column" where
  "get_counter row k = (case row k of None \<Rightarrow> IntVal 0 | Some v \<Rightarrow> v)"

fun at_least :: "column \<Rightarrow> int \<Rightarrow> ('s, bool) prog" where
  "at_least (IntVal v) n = ret (n \<le> v)"
| "at_least Null n =
     throw (Raised TypeError (py ''>= not supported between instances of NoneType and int''))"

fun int_of_column :: "column \<Rightarrow> int" where
  "int_of_column (IntVal v) = v"
| "int_of_column Null = 0"

definition check_user_usage_limits :: "env \<Rightarrow> pystr \<Rightarrow> (world, int \<times> int) prog" where
  "check_user_usage_limits e uid =
     try_except
       (bind (select_usage e uid) (\<lambda>usage_data.
        let row = (case (case usage_data of None \<Rightarrow> None | Some r \<Rightarrow> data r) of
                     None \<Rightarrow> Map.empty | Some d \<Rightarrow> d);
            daily = get_counter row (py ''daily_conversions'');
            monthly = get_counter row (py ''monthly_conversions'') in
        bind (at_least daily 3) (\<lambda>daily_reached.
        if daily_reached then
          throw (HTTPException 429 (py ''Daily conversion limit reached.''))
        else
          bind (at_least monthly 30) (\<lambda>monthly_reached.
          if monthly_reached then
            throw (HTTPException 429 (py ''Monthly conversion limit reached.''))
          else ret (int_of_column daily, int_of_column monthly)))))
       (\<lambda>x. if is_http_exception x then throw x
            else throw (HTTPException 500 (py ''Usage check failed: '' @ exc_str x)))"

definition increment_user_usage :: "env \<Rightarrow> pystr \<Rightarrow> int \<Rightarrow> int \<Rightarrow> (world, unit) prog" where
  "increment_user_usage e uid daily monthly =
     try_except
       (let new_daily = daily + 1; new_monthly = monthly + 1
        in update_usage e uid new_daily new_monthly)
       (\<lambda>x. ret ())"

section \<open>\<open>auth_utils.py\<close>\<close>

text \<open>\<open>not v\<close> for a value that is a string or \<open>None\<close>.\<close>

definition falsy :: "pystr option \<Rightarrow> bool" where
  "falsy v = (v = None \<or> v = Some [])"

definition get_user_id_from_jwt :: "env \<Rightarrow> http_credentials \<Rightarrow> ('s, pystr) prog" where
  "get_user_id_from_jwt e creds =
     (let secret = auth_secret e in
      case secret of
        None \<Rightarrow> throw (HTTPException 500 (py ''SUPABASE_JWKS_SECRET not set.''))
      | Some k \<Rightarrow>
          if k = [] then throw (HTTPException 500 (py ''SUPABASE_JWKS_SECRET not set.''))
          else
            let token = credentials creds in
            try_except
              (bind (lift (jwt_decode e token k)) (\<lambda>payload.
               case payload (py ''sub'') of
                 None \<Rightarrow> throw (HTTPException 401 (py ''Invalid authentication credentials''))
               | Some uid \<Rightarrow>
                   if uid = [] then
                     throw (HTTPException 401 (py ''Invalid authentication credentials''))
                   else ret uid))
              (\<lambda>x. throw (HTTPException 401
                             (py ''Invalid authentication credentials: '' @ exc_str x))))"

section \<open>\<open>utils.py\<close>\<close>

definition MAX_FILE_SIZE :: nat where
  "MAX_FILE_SIZE = 10 * 1024 * 1024"

text \<open>The anchor text of a link: the words whose box lies inside the link's rectangle,
  each followed by a space, stripped. PyMuPDF takes a rectangle whose coordinates are all
  zero for false.\<close>

definition rect_truthy :: "rect option \<Rightarrow> bool" where
  "rect_truthy r = (case r of
       None \<Rightarrow> False
     | Some b \<Rightarrow> \<not> (rect_x0 b = 0 \<and> rect_y0 b = 0 \<and> rect_x1 b = 0 \<and> rect_y1 b = 0))"

fun word_in_rect :: "rect \<Rightarrow> real \<times> real \<times> real \<times> real \<times> pystr \<Rightarrow> bool" where
  "word_in_rect b (wx0, wy0, wx1, wy1, wd) =
     (wx0 \<ge> rect_x0 b \<and> wx1 \<le> rect_x1 b \<and> wy0 \<ge> rect_y0 b \<and> wy1 \<le> rect_y1 b)"

definition link_anchor_text :: "pdf_page \<Rightarrow> rect option \<Rightarrow> pystr" where
  "link_anchor_text page r = (case r of
       None \<Rightarrow> []
     | Some b \<Rightarrow>
         if rect_truthy r then
           strip (concat (map (\<lambda>wd. snd (snd (snd (snd wd))) @ py '' '')
                               (filter (word_in_rect b) (page_words page))))
         else [])"

definition page_hyperlinks :: "nat \<Rightarrow> pdf_page \<Rightarrow> pystr list" where
  "page_hyperlinks page_num page =
     concat (map (\<lambda>link. case link_uri link of
                     None \<Rightarrow> []
                   | Some u \<Rightarrow>
                       if u = [] then []
                       else [py ''Page '' @ str_of_nat (page_num + 1) @ py '': '' @ [39]
                             @ link_anchor_text page (link_from link) @ [39] @ py '' -> '' @ u])
                 (page_links page))"

text \<open>The loop over the pages: the text read so far and the links listed so far.\<close>

fun read_pdf_pages :: "nat \<Rightarrow> pdf_page list \<Rightarrow> pystr \<times> pystr list \<Rightarrow> pystr \<times> pystr list" where
  "read_pdf_pages page_num [] acc = acc"
| "read_pdf_pages page_num (page # rest) (txt, hyperlinks) =
     read_pdf_pages (Suc page_num) rest
       (txt @ page_text page @ py ''\<newline>'', hyperlinks @ page_hyperlinks page_num page)"

definition extract_pdf :: "env \<Rightarrow> pystr \<Rightarrow> pybytes \<Rightarrow> ('s, pystr) prog" where
  "extract_pdf e fname body =
     bind (try_except
             (bind (lift (fitz_open e body)) (\<lambda>doc. ret (read_pdf_pages 0 doc ([], []))))
             (\<lambda>x. throw (HTTPException 400 (py ''Could not parse PDF file: '' @ exc_str x))))
       (\<lambda>(txt, hyperlinks).
          if hyperlinks \<noteq> [] then
            ret (txt @ py ''\<newline>\<newline>Hyperlinks found in PDF:\<newline>''
                     @ str_join (py ''\<newline>'') hyperlinks)
          else ret txt)"

definition extract_word :: "env \<Rightarrow> pystr \<Rightarrow> pybytes \<Rightarrow> ('s, pystr) prog" where
  "extract_word e fname body =
     try_except
       (if endswith (str_lower e fname) (py ''.docx'') then
          bind (lift (docx_Document e body)) (\<lambda>paragraphs.
          ret (concat (map (\<lambda>para. para @ py ''\<newline>'') paragraphs)))
        else
          try_except
            (bind (lift (textract_process e body)) (\<lambda>extracted.
             ret (utf8_decode_replace extracted)))
            (\<lambda>x. if is_class ImportError x then
                   try_except
                     (bind (lift (antiword e body)) (\<lambda>out. ret (utf8_decode_replace out)))
                     (\<lambda>y. throw (HTTPException 400
                                    (py ''Could not parse DOC file: '' @ exc_str y)))
                 else throw x))
       (\<lambda>x. throw (HTTPException 400 (py ''Could not parse Word file: '' @ exc_str x)))"

definition extract_plain :: "pybytes \<Rightarrow> ('s, pystr) prog" where
  "extract_plain body =
     (case utf8_decode body of
        Some txt \<Rightarrow> ret txt
      | None \<Rightarrow> ret (latin1_decode body))"

definition is_pdf_upload :: "env \<Rightarrow> pystr option \<Rightarrow> pystr \<Rightarrow> bool" where
  "is_pdf_upload e ctype fname =
     (ctype = Some (py ''application/pdf'') \<or> endswith (str_lower e fname) (py ''.pdf''))"

definition is_word_upload :: "env \<Rightarrow> pystr option \<Rightarrow> pystr \<Rightarrow> bool" where
  "is_word_upload e ctype fname =
     (ctype = Some (py ''application/vnd.openxmlformats-officedocument.wordprocessingml.document'')
      \<or> ctype = Some (py ''application/msword'')
      \<or> endswith (str_lower e fname) (py ''.docx'') \<or> endswith (str_lower e fname) (py ''.doc''))"

definition is_text_upload :: "env \<Rightarrow> pystr option \<Rightarrow> pystr \<Rightarrow> bool" where
  "is_text_upload e ctype fname =
     (ctype = Some (py ''text/markdown'') \<or> ctype = Some (py ''text/plain'')
      \<or> endswith (str_lower e fname) (py ''.md'') \<or> endswith (str_lower e fname) (py ''.txt''))"

definition str_of_option :: "pystr option \<Rightarrow> pystr" where
  "str_of_option v = (case v of None \<Rightarrow> py ''None'' | Some s \<Rightarrow> s)"

text \<open>\<open>extract_text_from_file\<close>. Both reads return the whole content, the file being
  rewound in between. The size is checked before the \<open>try\<close> block; the detail prints
  \<open>MAX_FILE_SIZE / 1024 / 1024\<close>, a float.\<close>

definition extract_text_from_file :: "env \<Rightarrow> upload_file \<Rightarrow> ('s, pystr) prog" where
  "extract_text_from_file e file =
     (let fname = (if falsy (filename file) then py ''unknown_file''
                   else str_of_option (filename file));
          ctype = content_type file;
          body = file_content file;
          size = length body
      in if size > MAX_FILE_SIZE then
           throw (HTTPException 413 (py ''File size exceeds limit (10.0 MB).''))
         else
           try_except
             (if body = [] then throw (HTTPException 400 (py ''Uploaded file is empty.''))
              else if is_pdf_upload e ctype fname then extract_pdf e fname body
              else if is_word_upload e ctype fname then extract_word e fname body
              else if is_text_upload e ctype fname then extract_plain body
              else throw (HTTPException 415
                            (py ''Unsupported file type: '' @ [39] @ str_of_option ctype @ [39]
                             @ py ''. Please upload PDF, DOCX, MD, or TXT.'')))
             (\<lambda>x. if is_http_exception x then throw x
                  else throw (HTTPException 500
                                (py ''Error processing file '' @ fname
                                 @ py ''. Please try again or contact support.''))))"

section \<open>\<open>email_templates.py\<close> and \<open>email_service.py\<close>\<close>

definition html_before_link :: pystr where
  "html_before_link =
       py ''\<newline>    <!DOCTYPE html>\<newline>    <html>\<newline>'' @
       py ''    <head>\<newline>        <meta charset=\"utf-8\">\<newline>'' @
       py ''        <meta name=\"viewport\" content=\"width=device-width, initial-scale=1.0\">\<newline>'' @
       py ''        <title>Resume PDF Ready</title>\<newline>    </head>\<newline>'' @
       py ''    <body style=\"font-family: -apple-system, BlinkMacSystemFont, 'Segoe '' @
       py ''UI', Roboto, sans-serif; line-height: 1.6; color: #000; background: #f5f5f5; '' @
       py ''margin: 0; padding: 20px;\">\<newline>        <div style=\"max-width: '' @
       py ''600px; margin: 0 auto; background: #fff; border: 3px solid #000; padding: '' @
       py ''40px;\">\<newline>            <h1 style=\"color: #000; margin: 0 0 20px '' @
       py ''0; font-size: 24px; font-weight: 600;\">Your Resume PDF is Ready!</h1>\<newline>'' @
       py ''            <p style=\"color: #000; margin: 0 0 30px 0; font-size: 16px; '' @
       py ''line-height: 1.5;\">Your resume has been successfully converted to PDF. '' @
       py ''Click the button below to download:</p>\<newline>            \<newline>'' @
       py ''            <div style=\"text-align: center; margin: 30px 0;\">\<newline>'' @
       py ''                <a href=\"''"

definition html_after_link :: pystr where
  "html_after_link =
       py ''\" \<newline>                   style=\"background: #fff; color: #000; '' @
       py ''padding: 18px 36px; text-decoration: none; border: 3px solid #000; border-radius: '' @
       py ''4px; font-weight: 600; display: inline-block; font-size: 16px;\">\<newline>'' @
       py ''                    Download PDF Resume\<newline>                </a>\<newline>'' @
       py ''            </div>\<newline>        </div>\<newline>'' @
       py ''    </body>\<newline>    </html>\<newline>    ''"

definition get_resume_conversion_email_template :: "pystr \<Rightarrow> pystr \<Rightarrow> pystr \<times> pystr" where
  "get_resume_conversion_email_template link conversion_type =
     (let subj = py ''Your Resume PDF is Ready! '' @ [0x1F4C4];
          html_content = html_before_link @ link @ html_after_link
      in (subj, html_content))"

definition get_email_from_jwt :: "env \<Rightarrow> http_credentials \<Rightarrow> ('s, pystr option) prog" where
  "get_email_from_jwt e creds =
     try_except
       (let secret = email_secret e in
        case secret of
          None \<Rightarrow> ret None
        | Some k \<Rightarrow>
            if k = [] then ret None
            else
              let token = credentials creds in
              bind (lift (jwt_decode e token k)) (\<lambda>payload.
              let found = payload (py ''email'') in
              if falsy found then ret None else ret found))
       (\<lambda>x. ret None)"

definition send_email :: "env \<Rightarrow> email_params \<Rightarrow> (world, unit) prog" where
  "send_email e params = (\<lambda>w.
     (case resend_send e params of Some x \<Rightarrow> Inl x | None \<Rightarrow> Inr (),
      record_call (ResendSend params) w))"

definition conversion_email :: "pystr \<Rightarrow> pystr \<Rightarrow> pystr \<Rightarrow> email_params" where
  "conversion_email user_email link conversion_type =
     (let (subj, html_content) = get_resume_conversion_email_template link conversion_type
      in \<lparr>email_from = py ''YourApp <noreply@yourdomain.com>'', email_to = [user_email],
          subject = subj, html = html_content\<rparr>)"

definition send_resume_conversion_email ::
  "env \<Rightarrow> pystr \<Rightarrow> pystr \<Rightarrow> pystr \<Rightarrow> (world, bool) prog" where
  "send_resume_conversion_email e user_email link conversion_type =
     try_except
       (bind (send_email e (conversion_email user_email link conversion_type)) (\<lambda>response.
        ret True))
       (\<lambda>x. ret False)"

definition send_resume_conversion_notification ::
  "env \<Rightarrow> http_credentials \<Rightarrow> pystr \<Rightarrow> pystr \<Rightarrow> (world, bool) prog" where
  "send_resume_conversion_notification e creds link conversion_type =
     try_except
       (bind (get_email_from_jwt e creds) (\<lambda>user_email.
        case user_email of
          None \<Rightarrow> ret False
        | Some addr \<Rightarrow>
            if addr = [] then ret False
            else send_resume_conversion_email e addr link conversion_type))
       (\<lambda>x. ret False)"

section \<open>\<open>supabase_utils.py\<close>\<close>

definition storage_upload_call :: "env \<Rightarrow> pystr \<Rightarrow> pybytes \<Rightarrow> (world, unit) prog" where
  "storage_upload_call e dest body = (\<lambda>w.
     (case storage_upload e dest body of Some x \<Rightarrow> Inl x | None \<Rightarrow> Inr (),
      record_call (StorageUpload dest body) w))"

definition get_public_url :: "env \<Rightarrow> pystr \<Rightarrow> (world, pystr) prog" where
  "get_public_url e dest = (\<lambda>w.
     (storage_get_public_url e dest, record_call (StorageGetPublicUrl dest) w))"

text \<open>\<open>upload_pdf_to_bucket\<close> opens the local file, which raises when it does not exist,
  uploads its content and asks for the public URL; its handler prints and re-raises.\<close>

definition upload_pdf_to_bucket :: "env \<Rightarrow> pystr \<Rightarrow> pystr \<Rightarrow> (world, pystr) prog" where
  "upload_pdf_to_bucket e file_path dest_filename =
     try_except
       (bind (read_binary file_path) (\<lambda>body.
        bind (storage_upload_call e dest_filename body) (\<lambda>u.
        get_public_url e dest_filename)))
       (\<lambda>x. throw x)"

definition insert_resume_record :: "env \<Rightarrow> pystr \<Rightarrow> pystr \<Rightarrow> (world, unit) prog" where
  "insert_resume_record e link uid = (\<lambda>w.
     let row = \<lparr>row_id = uuid4 e (uuid_count w), created_at = utcnow_isoformat e,
                resume_link = link, user_id = uid\<rparr>;
         w1 = w\<lparr>uuid_count := Suc (uuid_count w)\<rparr>
     in try_except
          (\<lambda>w2. (case resume_insert e row of Some x \<Rightarrow> Inl x | None \<Rightarrow> Inr (),
                 record_call (ResumeInsert row) w2))
          (\<lambda>x. throw x) w1)"

section \<open>\<open>main.py\<close>\<close>

text \<open>
  The history of a request records which functions of the pipeline the handler has called
  and which of these calls have returned; a call that raised is invoked and not returned.
  The history is not part of the program: \<open>call\<close> runs the function on the world and
  notes the outcome beside it, \<open>on_world\<close> runs an operation that is not a step.
\<close>

datatype step =
    CheckUsage | ExtractText | GenerateTailored | GenerateLatex | ConvertPdf | UploadPdf
  | InsertRecord | SendNotification | IncrementUsage

datatype step_event = Invoked step | Returned step

type_synonym request_state = "world \<times> step_event list"

definition call :: "step \<Rightarrow> (world, 'a) prog \<Rightarrow> (request_state, 'a) prog" where
  "call st m = (\<lambda>(w, h). case m w of
       (Inl x, w') \<Rightarrow> (Inl x, (w', h @ [Invoked st]))
     | (Inr v, w') \<Rightarrow> (Inr v, (w', h @ [Invoked st, Returned st])))"

definition on_world :: "(world, 'a) prog \<Rightarrow> (request_state, 'a) prog" where
  "on_world m = (\<lambda>(w, h). case m w of (r, w') \<Rightarrow> (r, (w', h)))"

record tailored_resume_response =
  response_filename :: pystr
  original_content_length :: nat
  job_description_length :: nat
  tailored_resume_text :: pystr

record json_to_latex_response =
  response_message :: pystr
  response_resume_link :: "pystr option"
  response_pdf_filename :: "pystr option"

text \<open>The except clauses shared by \<open>/tailor\<close> and \<open>/convert-json-to-latex\<close>, with the
  message of the last one.\<close>

definition reraise_as_http :: "pystr \<Rightarrow> exn \<Rightarrow> ('s, 'a) prog" where
  "reraise_as_http unexpected x =
     (if is_http_exception x then throw x
      else if is_value_error x then throw (HTTPException 400 (exc_str x))
      else if is_class RuntimeError x then throw (HTTPException 500 (exc_str x))
      else throw (HTTPException 500 unexpected))"

definition tailor_resume_endpoint ::
  "env \<Rightarrow> http_credentials \<Rightarrow> pystr \<Rightarrow> upload_file \<Rightarrow> (request_state, tailored_resume_response) prog"
  where
  "tailor_resume_endpoint e creds job_description resume_file =
     bind (get_user_id_from_jwt e creds) (\<lambda>uid.
     bind (call CheckUsage (check_user_usage_limits e uid)) (\<lambda>(daily, monthly).
     if falsy (filename resume_file) then
       throw (HTTPException 400 (py ''Filename cannot be empty.''))
     else
       try_except
         (bind (call ExtractText (extract_text_from_file e resume_file)) (\<lambda>original_resume_text.
          if resume_tailoring_chain e = None then
            throw (HTTPException 503 (py ''Resume processing service temporarily unavailable.''))
          else
            bind (call GenerateTailored
                    (generate_tailored_resume e original_resume_text job_description
                       (resume_tailoring_chain e))) (\<lambda>modified_resume_text.
            bind (call IncrementUsage (increment_user_usage e uid daily monthly)) (\<lambda>u.
            ret \<lparr>response_filename = str_of_option (filename resume_file),
                 original_content_length = length original_resume_text,
                 job_description_length = length job_description,
                 tailored_resume_text = modified_resume_text\<rparr>))))
         (reraise_as_http (py ''An unexpected error occurred.''))))"

text \<open>The clean-up loop of the two conversion endpoints: each side file of this PDF is
  removed if it is there; a failure to remove one is logged only.\<close>

definition cleanup_extensions :: "pystr list" where
  "cleanup_extensions = [py ''.pdf'', py ''.tex'', py ''.aux'', py ''.log'', py ''.out'']"

definition cleanup_generated_files :: "env \<Rightarrow> pystr \<Rightarrow> (world, unit) prog" where
  "cleanup_generated_files e pdf_filename = (\<lambda>w.
     let latex_output_dir = os_path_join (getcwd e) (py ''latex_output'');
         base_name = fst (os_path_splitext pdf_filename)
     in (Inr (),
         w\<lparr>files := foldl (\<lambda>fs ext. fs(os_path_join latex_output_dir (base_name @ ext) := None))
                           (files w) cleanup_extensions\<rparr>))"

text \<open>\<open>send_resume_conversion_notification\<close> inside the handlers' own \<open>try\<close>, whose
  handler logs.\<close>

definition notify :: "env \<Rightarrow> http_credentials \<Rightarrow> pystr \<Rightarrow> pystr \<Rightarrow> (request_state, unit) prog" where
  "notify e creds public_url conversion_type =
     try_except
       (bind (call SendNotification
                (send_resume_conversion_notification e creds public_url conversion_type))
          (\<lambda>email_sent. ret ()))
       (\<lambda>x. ret ())"

definition supported_resume_name :: "env \<Rightarrow> pystr \<Rightarrow> bool" where
  "supported_resume_name e fname =
     (endswith (str_lower e fname) (py ''.pdf'') \<or> endswith (str_lower e fname) (py ''.md'')
      \<or> endswith (str_lower e fname) (py ''.docx'') \<or> endswith (str_lower e fname) (py ''.doc''))"

definition convert_to_latex_endpoint ::
  "env \<Rightarrow> http_credentials \<Rightarrow> upload_file \<Rightarrow> (request_state, pystr) prog" where
  "convert_to_latex_endpoint e creds resume_file =
     bind (get_user_id_from_jwt e creds) (\<lambda>uid.
     bind (call CheckUsage (check_user_usage_limits e uid)) (\<lambda>(daily, monthly).
     bind (try_except
             (if falsy (filename resume_file) then
                throw (HTTPException 400 (py ''Filename cannot be empty.''))
              else if \<not> supported_resume_name e (str_of_option (filename resume_file)) then
                throw (HTTPException 400
                         (py ''Only PDF, Markdown (.md), DOCX, and DOC files are supported.''))
              else
                bind (call ExtractText (extract_text_from_file e resume_file))
                  (\<lambda>original_resume_text.
                bind (call GenerateLatex
                        (generate_latex_resume e original_resume_text (latex_conversion_chain e)))
                  (\<lambda>latex_resume_text.
                bind (call ConvertPdf (convert_latex_to_pdf e latex_resume_text))
                  (\<lambda>(pdf_content, pdf_filename).
                let local_pdf_path =
                      os_path_join (os_path_join (getcwd e) (py ''latex_output'')) pdf_filename in
                bind (call UploadPdf (upload_pdf_to_bucket e local_pdf_path pdf_filename))
                  (\<lambda>public_url.
                bind (call InsertRecord (insert_resume_record e public_url uid)) (\<lambda>u.
                bind (notify e creds public_url (py ''resume'')) (\<lambda>u.
                bind (on_world (cleanup_generated_files e pdf_filename)) (\<lambda>u.
                ret public_url))))))))
             (\<lambda>x. if is_http_exception x then throw x
                  else throw (HTTPException 500 (exc_str x))))
       (\<lambda>public_url.
     bind (call IncrementUsage (increment_user_usage e uid daily monthly)) (\<lambda>u.
     ret public_url))))"

definition convert_json_to_latex_endpoint ::
  "env \<Rightarrow> resume_data \<Rightarrow> http_credentials \<Rightarrow> (request_state, json_to_latex_response) prog"
  where
  "convert_json_to_latex_endpoint e resume creds =
     bind (get_user_id_from_jwt e creds) (\<lambda>uid.
     bind (call CheckUsage (check_user_usage_limits e uid)) (\<lambda>(daily, monthly).
     if latex_conversion_chain e = None then
       throw (HTTPException 503 (py ''Resume processing service temporarily unavailable.''))
     else
       try_except
         (let resume_content_json_string = model_dump_json e resume in
          bind (call GenerateLatex
                  (generate_latex_resume e resume_content_json_string (latex_conversion_chain e)))
            (\<lambda>latex_resume_text.
          bind (call ConvertPdf (convert_latex_to_pdf e latex_resume_text))
            (\<lambda>(pdf_content, pdf_filename).
          let latex_output_dir = os_path_join (getcwd e) (py ''latex_output'');
              local_pdf_path = os_path_join latex_output_dir pdf_filename in
          bind (on_world (path_exists local_pdf_path)) (\<lambda>found.
          bind (if \<not> found then on_world (write_binary local_pdf_path pdf_content) else ret ())
            (\<lambda>u.
          bind (call UploadPdf (upload_pdf_to_bucket e local_pdf_path pdf_filename))
            (\<lambda>public_url.
          bind (call InsertRecord (insert_resume_record e public_url uid)) (\<lambda>u.
          bind (notify e creds public_url (py ''json'')) (\<lambda>u.
          bind (on_world (cleanup_generated_files e pdf_filename)) (\<lambda>u.
          bind (call IncrementUsage (increment_user_usage e uid daily monthly)) (\<lambda>u.
          ret \<lparr>response_message = py ''Resume converted successfully from JSON.'',
               response_resume_link = Some public_url,
               response_pdf_filename = Some pdf_filename\<rparr>))))))))))
         (reraise_as_http
            (py ''An unexpected error occurred during JSON to LaTeX conversion.''))))"

text \<open>
  The three handlers behind their dependency. Each declares
  \<open>credentials = Depends(HTTPBearer())\<close>: FastAPI applies the dependency to the
  request's \<open>Authorization\<close> header and calls the handler with the credentials it
  returns; when the dependency raises, the handler is not called and the exception is the
  response. Here the dependency is the parameter \<open>http_bearer\<close> and the body of the
  request has been parsed.
\<close>

definition post_tailor ::
  "env \<Rightarrow> pystr option \<Rightarrow> pystr \<Rightarrow> upload_file \<Rightarrow> (request_state, tailored_resume_response) prog"
  where
  "post_tailor e authorization job_description resume_file =
     bind (lift (http_bearer e authorization)) (\<lambda>creds.
     tailor_resume_endpoint e creds job_description resume_file)"

definition post_convert_latex ::
  "env \<Rightarrow> pystr option \<Rightarrow> upload_file \<Rightarrow> (request_state, pystr) prog" where
  "post_convert_latex e authorization resume_file =
     bind (lift (http_bearer e authorization)) (\<lambda>creds.
     convert_to_latex_endpoint e creds resume_file)"

definition post_convert_json_to_latex ::
  "env \<Rightarrow> pystr option \<Rightarrow> resume_data \<Rightarrow> (request_state, json_to_latex_response) prog"
  where
  "post_convert_json_to_latex e authorization resume =
     bind (lift (http_bearer e authorization)) (\<lambda>creds.
     convert_json_to_latex_endpoint e resume creds)"

section \<open>The routes under FastAPI\<close>

text \<open>
  Modelled from the spec: FastAPI's part in a request, which \<open>main.py\<close> uses and the
  repository does not contain: the security class \<open>HTTPBearer\<close> and the way a request
  reaches a handler. The spec's interface says that every endpoint requires
  \<open>Authorization: Bearer <token>\<close> and that a missing or invalid token is answered with
  status 401. \<open>HTTPBearer\<close> takes the header apart at its first space into a scheme and
  the credentials; without a header, a scheme or credentials, or with a scheme other than
  \<open>bearer\<close>, it raises that error, unless it was built with \<open>auto_error=False\<close>, when
  it returns \<open>None\<close>.
\<close>

definition get_authorization_scheme_param :: "pystr option \<Rightarrow> pystr \<times> pystr" where
  "get_authorization_scheme_param authorization_header_value =
     (case authorization_header_value of
        None \<Rightarrow> ([], [])
      | Some v \<Rightarrow> (takeWhile (\<lambda>c. c \<noteq> 0x20) v, drop 1 (dropWhile (\<lambda>c. c \<noteq> 0x20) v)))"

definition HTTPBearer :: "bool \<Rightarrow> env \<Rightarrow> pystr option \<Rightarrow> exn + http_credentials option" where
  "HTTPBearer auto_error e authorization_header_value =
     (let (sch, cred) = get_authorization_scheme_param authorization_header_value
      in if falsy authorization_header_value \<or> sch = [] \<or> cred = []
            \<or> str_lower e sch \<noteq> py ''bearer''
         then (if auto_error then Inl (HTTPException 401 (py ''Not authenticated''))
               else Inr None)
         else Inr (Some \<lparr>scheme = sch, credentials = cred\<rparr>))"

text \<open>\<open>auth.py\<close>: \<open>bearer_scheme = HTTPBearer(auto_error=False)\<close>. \<open>main.py\<close> imports it
  and no route depends on it: each handler declares \<open>Depends(HTTPBearer())\<close>, with
  \<open>auto_error\<close> at its default \<open>True\<close>.\<close>

definition bearer_scheme :: "env \<Rightarrow> pystr option \<Rightarrow> exn + http_credentials option" where
  "bearer_scheme = HTTPBearer False"

text \<open>
  A request as a route sees it: the value of its \<open>Authorization\<close> header, if it has one,
  and what FastAPI makes of its body. FastAPI reads the body before it resolves the
  dependencies of the handler and answers a body it cannot read itself (JSON that does not
  parse with status 422, broken form data with status 400): \<open>Unreadable\<close>, with the
  error of that answer. A body it has read is validated against the handler's parameters
  after the dependencies are resolved: \<open>Invalid\<close>, with the error of the answer, or
  \<open>Valid\<close>, with the value the handler receives.
\<close>

datatype 'b request_body = Unreadable exn | Invalid exn | Valid 'b






section \<open>Reasoning about runs\<close>

text \<open>
  \<open>wp m Q E s\<close>: the run of \<open>m\<close> from the state \<open>s\<close> ends in a state that satisfies
  \<open>Q\<close> with the value returned, or \<open>E\<close> with the exception raised. \<open>usage_updates\<close> are
  the writes to the usage counters among the calls made, and a computation is
  \<open>quiet\<close> when it makes none.
\<close>

definition wp :: "('s, 'a) prog \<Rightarrow> ('a \<Rightarrow> 's \<Rightarrow> bool) \<Rightarrow> (exn \<Rightarrow> 's \<Rightarrow> bool) \<Rightarrow> 's \<Rightarrow> bool" where
  "wp m Q E s = (case m s of (Inl x, s') \<Rightarrow> E x s' | (Inr v, s') \<Rightarrow> Q v s')"

fun is_usage_update :: "ext_call \<Rightarrow> bool" where
  "is_usage_update (UsageUpdate uid d m) = True"
| "is_usage_update c = False"

definition usage_updates :: "world \<Rightarrow> ext_call list" where
  "usage_updates w = filter is_usage_update (calls w)"

definition quiet :: "(world, 'a) prog \<Rightarrow> bool" where
  "quiet m = (\<forall>w. usage_updates (snd (m w)) = usage_updates w)"

section \<open>A sample environment\<close>

text \<open>A concrete environment and state on which the properties below are exercised: a
  compiler that writes a small PDF next to its input and exits with status 1, chains that
  answer with a fixed string, and services that accept every call.\<close>

definition ascii_lower :: "pystr \<Rightarrow> pystr" where
  "ascii_lower s = map (\<lambda>c. if 65 \<le> c \<and> c \<le> 90 then c + 32 else c) s"

definition sample_process :: completed_process where
  "sample_process = \<lparr>returncode = 1, stdout = [], stderr = py ''! Undefined control sequence.''\<rparr>"

definition sample_pdflatex ::
  "pystr list \<Rightarrow> pystr \<Rightarrow> (pystr \<rightharpoonup> pybytes) \<Rightarrow> (exn + completed_process) \<times> (pystr \<rightharpoonup> pybytes)"
  where
  "sample_pdflatex cmd dir fs =
     (Inr sample_process, fs(snd (get_pdf_and_tex_filenames (last cmd)) \<mapsto> [0x25, 0x50, 0x44, 0x46]))"


definition sample_chain :: chain where
  "sample_chain inputs = Inr (StrOutput (py ''```latex\<newline>X\<newline>```''))"

text \<open>A bearer dependency for the handlers' parameter: no header, or a header that is not
  \<open>Bearer\<close> and a token, is answered with status 401.\<close>

definition sample_bearer :: "pystr option \<Rightarrow> exn + http_credentials" where
  "sample_bearer authorization =
     (case authorization of
        None \<Rightarrow> Inl (HTTPException 401 (py ''Not authenticated''))
      | Some v \<Rightarrow>
          if startswith v (py ''Bearer '') \<and> length v > 7
          then Inr \<lparr>scheme = py ''Bearer'', credentials = drop 7 v\<rparr>
          else Inl (HTTPException 401 (py ''Not authenticated'')))"

text \<open>A compiler that writes the PDF and prints a line that is not valid UTF-8:
  \<open>subprocess.run\<close>, called with \<open>text=True\<close>, raises when it decodes the output.\<close>

definition undecodable_pdflatex ::
  "pystr list \<Rightarrow> pystr \<Rightarrow> (pystr \<rightharpoonup> pybytes) \<Rightarrow> (exn + completed_process) \<times> (pystr \<rightharpoonup> pybytes)"
  where
  "undecodable_pdflatex cmd dir fs =
     (Inl (Raised UnicodeDecodeError (py ''invalid start byte'')),
      fs(snd (get_pdf_and_tex_filenames (last cmd)) \<mapsto> [0x25, 0x50, 0x44, 0x46]))"

definition sample_env :: env where
  "sample_env =
     \<lparr>str_lower = ascii_lower,
      getcwd = py ''/app'',
      uuid4 = (\<lambda>n. py ''7d1f0007''),
      utcnow_isoformat = py ''2025-01-01T00:00:00'',
      LATEX_TEMPLATE = py ''template'',
      auth_secret = None,
      email_secret = None,
      resume_tailoring_chain = Some sample_chain,
      latex_conversion_chain = Some sample_chain,
      pdflatex = sample_pdflatex,
      fitz_open = (\<lambda>bs. Inr []),
      docx_Document = (\<lambda>bs. Inr []),
      textract_process = (\<lambda>bs. Inl (Raised ImportError (py ''No module named textract''))),
      antiword = (\<lambda>bs. Inr bs),
      jwt_decode = (\<lambda>token secret. Inr [py ''sub'' \<mapsto> py ''user-1'', py ''email'' \<mapsto> py ''a@b.c'']),
      http_bearer = sample_bearer,
      usage_select = (\<lambda>uid. Inr None),
      usage_update = (\<lambda>uid d m. None),
      storage_upload = (\<lambda>dest bs. None),
      storage_get_public_url = (\<lambda>dest. Inr (py ''https://bucket/'' @ dest)),
      resume_insert = (\<lambda>row. None),
      resend_send = (\<lambda>params. None),
      model_dump_json = (\<lambda>d. py ''{}'')\<rparr>"

definition empty_world :: world where
  "empty_world = \<lparr>files = Map.empty, uuid_count = 0, calls = []\<rparr>"

definition sample_resume :: resume_data where
  "sample_resume =
     \<lparr>basicInfo = \<lparr>fullName = py ''Ada'', phone = py ''1'', email = py ''a@b.c'',
                    linkedin = py ''l'', github = py ''g'', website = None\<rparr>,
      education = [], experience = [], projects = [],
      skills = \<lparr>languages = py ''ML'', frameworks = [], developerTools = [],
                 libraries = []\<rparr>\<rparr>"

section \<open>Properties\<close>

subsection \<open>The LaTeX compiler wrapper\<close>




lemmas path_defs = os_path_join_def os_path_basename_def os_path_dirname_def
  os_path_splitext_def get_pdf_and_tex_filenames_def startswith_def endswith_def slash_def Let_def

lemma sample_pdf_names:
  "get_pdf_and_tex_filenames (py ''/app/latex_output/7d1f0007.tex'') =
     (py ''7d1f0007.pdf'', py ''/app/latex_output/7d1f0007.pdf'')"
  by (simp add: path_defs)

text \<open>
  C1. The claim lets \<open>convert_latex_to_pdf\<close> succeed whenever the invocation leaves a
  non-empty PDF at the expected path. It fails when \<open>subprocess.run\<close> itself raises after
  the compiler has written the PDF, as it does on compiler output that is not valid UTF-8:
  the handler for every other exception answers 500, and the PDF is on disk.
\<close>

theorem convert_latex_to_pdf_fails_when_run_raises:
  "fst (convert_latex_to_pdf (sample_env\<lparr>pdflatex := undecodable_pdflatex\<rparr>) (py ''x'')
          empty_world)
     = Inl (HTTPException 500 (py ''Failed to convert LaTeX to PDF: invalid start byte''))
   \<and> files (snd (convert_latex_to_pdf (sample_env\<lparr>pdflatex := undecodable_pdflatex\<rparr>)
                    (py ''x'') empty_world)) (py ''/app/latex_output/7d1f0007.pdf'')
     = Some [0x25, 0x50, 0x44, 0x46]"
proof -
  have "convert_latex_to_pdf (sample_env\<lparr>pdflatex := undecodable_pdflatex\<rparr>) (py ''x'')
          empty_world
     = (Inl (HTTPException 500 (py ''Failed to convert LaTeX to PDF: invalid start byte'')),
        record_call (Pdflatex
            (build_pdflatex_command (py ''/app/latex_output/7d1f0007.tex'')
               (py ''/app/latex_output'')) (py ''/app/latex_output''))
          (empty_world\<lparr>uuid_count := 1,
             files := [py ''/app/latex_output/7d1f0007.tex'' \<mapsto> [0x78],
                       py ''/app/latex_output/7d1f0007.pdf'' \<mapsto> [0x25, 0x50, 0x44, 0x46]]\<rparr>))"
    using sample_pdf_names
    by (simp add: convert_latex_to_pdf_def try_except_def bind_def throw_def
        write_latex_to_file_def run_pdflatex_command_def undecodable_pdflatex_def
        build_pdflatex_command_def utf8_encode_def utf8_encode_char_def sample_env_def
        empty_world_def os_path_join_def startswith_def endswith_def slash_def Let_def)
  then show ?thesis
    by (simp add: record_call_def)
qed

text \<open>
  C1, amended. Let the LaTeX source have a UTF-8 encoding, so that the \<open>.tex\<close> file is
  written and the compiler is invoked, and let the invocation return a completed process,
  with any exit status, and leave a non-empty file at the path
  \<open>get_pdf_and_tex_filenames\<close> computes from the \<open>.tex\<close> path. Then
  \<open>convert_latex_to_pdf\<close> returns the bytes of that file together with the PDF's
  filename.
\<close>

theorem convert_latex_to_pdf_trusts_artifact:
  assumes "utf8_encode latex_content = Some bs"
    and "output_dir = os_path_join (getcwd e) (py ''latex_output'')"
    and "tex_path = os_path_join output_dir (uuid4 e (uuid_count w) @ py ''.tex'')"
    and "get_pdf_and_tex_filenames tex_path = (pdf_filename, pdf_path)"
    and "pdflatex e (build_pdflatex_command tex_path output_dir) output_dir
           ((files w)(tex_path \<mapsto> bs)) = (Inr process, fs)"
    and "fs pdf_path = Some pdf_content"
    and "pdf_content \<noteq> []"
  shows "fst (convert_latex_to_pdf e latex_content w) = Inr (pdf_content, pdf_filename)"
  using assms
  by (simp add: convert_latex_to_pdf_def try_except_def bind_def ret_def throw_def
      write_latex_to_file_def run_pdflatex_command_def record_call_def path_exists_def
      getsize_def read_pdf_file_def read_binary_def Let_def)

lemma sample_output_dir:
  "py ''/app/latex_output'' = os_path_join (getcwd sample_env) (py ''latex_output'')"
  by (simp add: sample_env_def path_defs)

lemma sample_tex_path:
  "py ''/app/latex_output/7d1f0007.tex'' =
     os_path_join (py ''/app/latex_output'')
       (uuid4 (sample_env\<lparr>pdflatex := p\<rparr>) (uuid_count empty_world) @ py ''.tex'')"
  by (simp add: sample_env_def path_defs)

lemma sample_encoding: "utf8_encode (py ''x'') = Some [0x78]"
  by (simp add: utf8_encode_def utf8_encode_char_def)

theorem convert_latex_to_pdf_trusts_artifact_witness:
  "returncode sample_process \<noteq> 0
   \<and> fst (convert_latex_to_pdf (sample_env\<lparr>pdflatex := sample_pdflatex\<rparr>) (py ''x'') empty_world)
       = Inr ([0x25, 0x50, 0x44, 0x46], py ''7d1f0007.pdf'')"
proof -
  have run: "pdflatex (sample_env\<lparr>pdflatex := sample_pdflatex\<rparr>)
        (build_pdflatex_command (py ''/app/latex_output/7d1f0007.tex'') (py ''/app/latex_output''))
        (py ''/app/latex_output'')
        ((files empty_world)(py ''/app/latex_output/7d1f0007.tex'' \<mapsto> [0x78]))
      = (Inr sample_process,
         ((files empty_world)(py ''/app/latex_output/7d1f0007.tex'' \<mapsto> [0x78]))
           (py ''/app/latex_output/7d1f0007.pdf'' \<mapsto> [0x25, 0x50, 0x44, 0x46]))"
    using sample_pdf_names
    by (simp add: sample_pdflatex_def build_pdflatex_command_def)
  have dir: "py ''/app/latex_output''
      = os_path_join (getcwd (sample_env\<lparr>pdflatex := sample_pdflatex\<rparr>)) (py ''latex_output'')"
    using sample_output_dir by simp
  have "fst (convert_latex_to_pdf (sample_env\<lparr>pdflatex := sample_pdflatex\<rparr>) (py ''x'') empty_world)
       = Inr ([0x25, 0x50, 0x44, 0x46], py ''7d1f0007.pdf'')"
    by (rule convert_latex_to_pdf_trusts_artifact
          [OF sample_encoding dir sample_tex_path sample_pdf_names run]) simp_all
  then show ?thesis by (simp add: sample_process_def)
qed



subsection \<open>The LaTeX conversion chain\<close>

text \<open>
  C5. The claim is that a leading \<open>```latex\<close> line is removed whole. The marker with its
  newline has nine characters and the slice drops eight: on the chain output
  \<open>```latex\<close>, newline, \<open>X\<close>, newline, \<open>```\<close> the function returns a newline
  followed by \<open>X\<close>, not \<open>X\<close>.
\<close>

theorem generate_latex_resume_keeps_newline_of_fence:
  "fst (generate_latex_resume sample_env (py ''resume'') (Some sample_chain) empty_world)
     = Inr (py ''\<newline>X'')
   \<and> length (py ''```latex\<newline>'') = 9"
  by (simp add: generate_latex_resume_def try_except_def bind_def ret_def throw_def ainvoke_def
      sample_chain_def strip_code_fence_def startswith_def endswith_def slice_from_def
      slice_to_def record_call_def)

subsection \<open>The quota gate\<close>

lemmas prog_defs = ret_def throw_def bind_def try_except_def lift_def

text \<open>
  C3. Let the read of the usage store succeed, and let the two counters of the row it
  returns be integers \<open>daily\<close> and \<open>monthly\<close>, a missing counter counting as 0. Then
  \<open>check_user_usage_limits\<close> raises the 429 error of the daily limit when
  \<open>daily \<ge> 3\<close>, else the 429 error of the monthly limit when \<open>monthly \<ge> 30\<close>,
  and else returns \<open>(daily, monthly)\<close>; so it raises a 429 error exactly when one of the
  two limits is reached. When the store has no row for the user (no response, or a
  response without data) the result is \<open>(0, 0)\<close>.
\<close>

theorem check_user_usage_limits_gate:
  assumes "usage_select e uid = Inr usage_data"
    and "row = (case (case usage_data of None \<Rightarrow> None | Some r \<Rightarrow> data r) of
                  None \<Rightarrow> Map.empty | Some d \<Rightarrow> d)"
    and "get_counter row (py ''daily_conversions'') = IntVal daily"
    and "get_counter row (py ''monthly_conversions'') = IntVal monthly"
  shows "fst (check_user_usage_limits e uid w) =
           (if 3 \<le> daily then Inl (HTTPException 429 (py ''Daily conversion limit reached.''))
            else if 30 \<le> monthly then
              Inl (HTTPException 429 (py ''Monthly conversion limit reached.''))
            else Inr (daily, monthly))
         \<and> ((\<exists>d. fst (check_user_usage_limits e uid w) = Inl (HTTPException 429 d))
              \<longleftrightarrow> 3 \<le> daily \<or> 30 \<le> monthly)
         \<and> ((usage_data = None \<or> (\<exists>r. usage_data = Some r \<and> data r = None))
              \<longrightarrow> fst (check_user_usage_limits e uid w) = Inr (0, 0))"
proof -
  have res: "fst (check_user_usage_limits e uid w) =
           (if 3 \<le> daily then Inl (HTTPException 429 (py ''Daily conversion limit reached.''))
            else if 30 \<le> monthly then
              Inl (HTTPException 429 (py ''Monthly conversion limit reached.''))
            else Inr (daily, monthly))"
    using assms
    by (simp add: check_user_usage_limits_def select_usage_def prog_defs Let_def)
  have absent: "(usage_data = None \<or> (\<exists>r. usage_data = Some r \<and> data r = None))
      \<longrightarrow> daily = 0 \<and> monthly = 0"
    using assms(2,3,4) by (auto simp add: get_counter_def)
  from res absent show ?thesis by auto
qed

theorem check_user_usage_limits_gate_witness:
  "fst (check_user_usage_limits
          (sample_env\<lparr>usage_select := (\<lambda>uid. Inr (Some \<lparr>data = Some
             [py ''daily_conversions'' \<mapsto> IntVal 3, py ''monthly_conversions'' \<mapsto> IntVal 30]\<rparr>))\<rparr>)
          (py ''user-1'') empty_world)
     = Inl (HTTPException 429 (py ''Daily conversion limit reached.''))"
  using check_user_usage_limits_gate
    [of "sample_env\<lparr>usage_select := (\<lambda>uid. Inr (Some \<lparr>data = Some
             [py ''daily_conversions'' \<mapsto> IntVal 3, py ''monthly_conversions'' \<mapsto> IntVal 30]\<rparr>))\<rparr>"
        "py ''user-1''"
        "Some \<lparr>data = Some
             [py ''daily_conversions'' \<mapsto> IntVal 3, py ''monthly_conversions'' \<mapsto> IntVal 30]\<rparr>"
        "[py ''daily_conversions'' \<mapsto> IntVal 3, py ''monthly_conversions'' \<mapsto> IntVal 30]"
        3 30 empty_world]
  by (simp add: get_counter_def)

subsection \<open>Authentication\<close>

text \<open>
  C10. With the verification secret unset, \<open>get_user_id_from_jwt\<close> raises the 500 error
  \<open>SUPABASE_JWKS_SECRET not set.\<close> for every credentials object, and each of the three
  handlers ends with that error in the state it started in: no file is touched, no call to
  the outside is made (no read of the usage store, no model call, no upload, insert or
  update), and no step of the pipeline is invoked. So every request to one of the three
  routes, whatever its \<open>Authorization\<close> header, ends with an error in the state it
  started in: either the bearer dependency raises, or the handler does.
\<close>

theorem get_user_id_from_jwt_secret_unset:
  assumes "auth_secret e = None"
  shows "get_user_id_from_jwt e creds s
           = (Inl (HTTPException 500 (py ''SUPABASE_JWKS_SECRET not set.'')), s)
         \<and> tailor_resume_endpoint e creds job_description resume_file st
           = (Inl (HTTPException 500 (py ''SUPABASE_JWKS_SECRET not set.'')), st)
         \<and> convert_to_latex_endpoint e creds resume_file st
           = (Inl (HTTPException 500 (py ''SUPABASE_JWKS_SECRET not set.'')), st)
         \<and> convert_json_to_latex_endpoint e resume creds st
           = (Inl (HTTPException 500 (py ''SUPABASE_JWKS_SECRET not set.'')), st)
         \<and> (\<exists>x. post_tailor e authorization job_description resume_file st = (Inl x, st))
         \<and> (\<exists>x. post_convert_latex e authorization resume_file st = (Inl x, st))
         \<and> (\<exists>x. post_convert_json_to_latex e authorization resume st = (Inl x, st))"
proof -
  have handlers: "tailor_resume_endpoint e c job_description resume_file st
           = (Inl (HTTPException 500 (py ''SUPABASE_JWKS_SECRET not set.'')), st)"
      "convert_to_latex_endpoint e c resume_file st
           = (Inl (HTTPException 500 (py ''SUPABASE_JWKS_SECRET not set.'')), st)"
      "convert_json_to_latex_endpoint e resume c st
           = (Inl (HTTPException 500 (py ''SUPABASE_JWKS_SECRET not set.'')), st)" for c
    using assms
    by (simp_all add: get_user_id_from_jwt_def tailor_resume_endpoint_def
        convert_to_latex_endpoint_def convert_json_to_latex_endpoint_def throw_def bind_def)
  have user: "get_user_id_from_jwt e creds s
           = (Inl (HTTPException 500 (py ''SUPABASE_JWKS_SECRET not set.'')), s)"
    using assms by (simp add: get_user_id_from_jwt_def throw_def)
  have routes: "\<exists>x. post_tailor e authorization job_description resume_file st = (Inl x, st)"
      "\<exists>x. post_convert_latex e authorization resume_file st = (Inl x, st)"
      "\<exists>x. post_convert_json_to_latex e authorization resume st = (Inl x, st)"
    by (cases "http_bearer e authorization";
        simp add: post_tailor_def post_convert_latex_def post_convert_json_to_latex_def
          bind_def lift_def handlers)+
  from user handlers [of creds] routes show ?thesis by simp
qed

theorem get_user_id_from_jwt_secret_unset_witness:
  "convert_to_latex_endpoint sample_env \<lparr>scheme = py ''Bearer'', credentials = py ''token''\<rparr>
     \<lparr>filename = Some (py ''cv.pdf''), content_type = Some (py ''application/pdf''),
      file_content = [0x25]\<rparr> (empty_world, [])
   = (Inl (HTTPException 500 (py ''SUPABASE_JWKS_SECRET not set.'')), (empty_world, []))"
proof -
  have unset: "auth_secret sample_env = None"
    by (simp add: sample_env_def)
  show ?thesis
    by (rule get_user_id_from_jwt_secret_unset [OF unset, THEN conjunct2, THEN conjunct2,
          THEN conjunct1])
qed




subsection \<open>The file text extractor\<close>

text \<open>
  C7. An upload whose content is longer than 10 MiB is rejected with status 413, whatever
  its declared content type and filename and whatever the parsers would do with it: the
  result does not depend on the environment, and neither the empty-content check nor a
  branch for a file type is reached.
\<close>

theorem extract_text_from_file_rejects_oversized:
  assumes "length (file_content file) > 10 * 1024 * 1024"
  shows "extract_text_from_file e file s
           = (Inl (HTTPException 413 (py ''File size exceeds limit (10.0 MB).'')), s)"
  using assms
  by (simp add: extract_text_from_file_def MAX_FILE_SIZE_def Let_def throw_def)

theorem extract_text_from_file_rejects_oversized_witness:
  "extract_text_from_file sample_env
     \<lparr>filename = Some (py ''cv.txt''), content_type = Some (py ''text/plain''),
      file_content = replicate 10485761 0x20\<rparr> empty_world
   = (Inl (HTTPException 413 (py ''File size exceeds limit (10.0 MB).'')), empty_world)"
  using extract_text_from_file_rejects_oversized
    [of "\<lparr>filename = Some (py ''cv.txt''), content_type = Some (py ''text/plain''),
          file_content = replicate 10485761 0x20\<rparr>" sample_env empty_world]
  by simp

text \<open>
  C8. Let an upload pass the size check and be dispatched to the text branch: it is not
  taken for a PDF or a Word file and its content type or filename is that of plain text or
  markdown. If its content is not valid UTF-8, \<open>extract_text_from_file\<close> returns its
  Latin-1 decoding. (Every sequence of octets is valid Latin-1, and a content that is not
  valid UTF-8 is not empty.)
\<close>

theorem extract_text_from_file_latin1_fallback:
  assumes "length (file_content file) \<le> MAX_FILE_SIZE"
    and "fname = (if falsy (filename file) then py ''unknown_file''
                  else str_of_option (filename file))"
    and "\<not> is_pdf_upload e (content_type file) fname"
    and "\<not> is_word_upload e (content_type file) fname"
    and "is_text_upload e (content_type file) fname"
    and "utf8_decode (file_content file) = None"
  shows "extract_text_from_file e file s = (Inr (latin1_decode (file_content file)), s)"
proof -
  have "file_content file \<noteq> []"
    using assms(6) by (auto simp add: utf8_decode_def)
  then show ?thesis
    using assms
    by (simp add: extract_text_from_file_def Let_def extract_plain_def try_except_def ret_def)
qed

theorem extract_text_from_file_latin1_fallback_witness:
  "extract_text_from_file sample_env
     \<lparr>filename = Some (py ''Notes.TXT''), content_type = None,
      file_content = [0x63, 0x61, 0x66, 0xE9]\<rparr> empty_world
   = (Inr [0x63, 0x61, 0x66, 0xE9], empty_world)"
proof -
  have bad: "utf8_decode [0x63, 0x61, 0x66, 0xE9] = None"
    by (simp add: utf8_decode_def)
  show ?thesis
    using extract_text_from_file_latin1_fallback
      [of "\<lparr>filename = Some (py ''Notes.TXT''), content_type = None,
            file_content = [0x63, 0x61, 0x66, 0xE9]\<rparr>" "py ''Notes.TXT''" sample_env empty_world]
      bad
    by (simp add: MAX_FILE_SIZE_def falsy_def str_of_option_def is_pdf_upload_def
        is_word_upload_def is_text_upload_def sample_env_def ascii_lower_def endswith_def
        latin1_decode_def)
qed

subsection \<open>The notification\<close>

text \<open>
  C9. For every environment, credentials, link and conversion type,
  \<open>send_resume_conversion_notification\<close> returns a boolean: no exception reaches its
  caller. It returns \<open>False\<close>, without a call to the email provider, when the signing
  secret is unset and when the decoded token has no email claim, and it returns
  \<open>False\<close> when the email provider raises on the message for the token's address.
\<close>

theorem send_resume_conversion_notification_total:
  "(\<exists>sent w'. send_resume_conversion_notification e creds link conversion_type w
                = (Inr sent, w'))
   \<and> (falsy (email_secret e) \<longrightarrow>
        send_resume_conversion_notification e creds link conversion_type w = (Inr False, w))
   \<and> (\<forall>k payload.
         email_secret e = Some k \<and> k \<noteq> []
         \<and> jwt_decode e (credentials creds) k = Inr payload \<and> payload (py ''email'') = None
         \<longrightarrow> send_resume_conversion_notification e creds link conversion_type w
               = (Inr False, w))
   \<and> (\<forall>k payload addr x.
         email_secret e = Some k \<and> k \<noteq> []
         \<and> jwt_decode e (credentials creds) k = Inr payload
         \<and> payload (py ''email'') = Some addr \<and> addr \<noteq> []
         \<and> resend_send e (conversion_email addr link conversion_type) = Some x
         \<longrightarrow> fst (send_resume_conversion_notification e creds link conversion_type w)
               = Inr False)"
proof (intro conjI allI impI)
  show "\<exists>sent w'. send_resume_conversion_notification e creds link conversion_type w
                = (Inr sent, w')"
    by (auto simp add: send_resume_conversion_notification_def send_resume_conversion_email_def
        get_email_from_jwt_def send_email_def prog_defs Let_def
        split: option.splits sum.splits prod.splits)
next
  assume "falsy (email_secret e)"
  then show "send_resume_conversion_notification e creds link conversion_type w = (Inr False, w)"
    by (auto simp add: send_resume_conversion_notification_def get_email_from_jwt_def
        prog_defs Let_def falsy_def)
next
  fix k payload
  assume "email_secret e = Some k \<and> k \<noteq> []
         \<and> jwt_decode e (credentials creds) k = Inr payload \<and> payload (py ''email'') = None"
  then show "send_resume_conversion_notification e creds link conversion_type w = (Inr False, w)"
    by (simp add: send_resume_conversion_notification_def get_email_from_jwt_def
        prog_defs Let_def falsy_def)
next
  fix k payload addr x
  assume "email_secret e = Some k \<and> k \<noteq> []
         \<and> jwt_decode e (credentials creds) k = Inr payload
         \<and> payload (py ''email'') = Some addr \<and> addr \<noteq> []
         \<and> resend_send e (conversion_email addr link conversion_type) = Some x"
  then show "fst (send_resume_conversion_notification e creds link conversion_type w) = Inr False"
    by (simp add: send_resume_conversion_notification_def send_resume_conversion_email_def
        get_email_from_jwt_def send_email_def prog_defs Let_def falsy_def)
qed

theorem send_resume_conversion_notification_total_witness:
  "send_resume_conversion_notification sample_env
     \<lparr>scheme = py ''Bearer'', credentials = py ''token''\<rparr> (py ''https://bucket/a.pdf'')
     (py ''resume'') empty_world = (Inr False, empty_world)
   \<and> fst (send_resume_conversion_notification
            (sample_env\<lparr>email_secret := Some (py ''key''),
                        resend_send := (\<lambda>params. Some (Raised OtherException (py ''rejected'')))\<rparr>)
            \<lparr>scheme = py ''Bearer'', credentials = py ''token''\<rparr> (py ''https://bucket/a.pdf'')
            (py ''resume'') empty_world) = Inr False"
proof -
  have unset: "falsy (email_secret sample_env)"
    by (simp add: sample_env_def falsy_def)
  have first: "send_resume_conversion_notification sample_env
     \<lparr>scheme = py ''Bearer'', credentials = py ''token''\<rparr> (py ''https://bucket/a.pdf'')
     (py ''resume'') empty_world = (Inr False, empty_world)"
    using send_resume_conversion_notification_total
      [of sample_env "\<lparr>scheme = py ''Bearer'', credentials = py ''token''\<rparr>"
          "py ''https://bucket/a.pdf''" "py ''resume''" empty_world] unset
    by blast
  have second: "fst (send_resume_conversion_notification
            (sample_env\<lparr>email_secret := Some (py ''key''),
                        resend_send := (\<lambda>params. Some (Raised OtherException (py ''rejected'')))\<rparr>)
            \<lparr>scheme = py ''Bearer'', credentials = py ''token''\<rparr> (py ''https://bucket/a.pdf'')
            (py ''resume'') empty_world) = Inr False"
    by (rule send_resume_conversion_notification_total
          [THEN conjunct2, THEN conjunct2, THEN conjunct2, rule_format,
           of _ "py ''key''" _ "[py ''sub'' \<mapsto> py ''user-1'', py ''email'' \<mapsto> py ''a@b.c'']"
              "py ''a@b.c''" _ _ "Raised OtherException (py ''rejected'')"])
       (simp add: sample_env_def)
  from first second show ?thesis by simp
qed

subsection \<open>Rules for runs\<close>

lemma wp_ret [simp]: "wp (ret v) Q E s = Q v s"
  by (simp add: wp_def ret_def)

lemma wp_throw [simp]: "wp (throw x) Q E s = E x s"
  by (simp add: wp_def throw_def)

lemma wp_lift [simp]: "wp (lift r) Q E s = (case r of Inl x \<Rightarrow> E x s | Inr v \<Rightarrow> Q v s)"
  by (simp add: wp_def lift_def split: sum.splits)

lemma wp_bind [simp]: "wp (bind m f) Q E s = wp m (\<lambda>v. wp (f v) Q E) E s"
  by (simp add: wp_def bind_def split: prod.splits sum.splits)

lemma wp_try_except [simp]: "wp (try_except m h) Q E s = wp m Q (\<lambda>x. wp (h x) Q E) s"
  by (simp add: wp_def try_except_def split: prod.splits sum.splits)

lemma wp_if: "wp (if b then m1 else m2) Q E s = (if b then wp m1 Q E s else wp m2 Q E s)"
  by simp

lemma wp_case_prod: "wp (case p of (a, b) \<Rightarrow> f a b) Q E s = (case p of (a, b) \<Rightarrow> wp (f a b) Q E s)"
  by (simp split: prod.splits)

lemma wp_case_option:
  "wp (case v of None \<Rightarrow> m | Some a \<Rightarrow> f a) Q E s
     = (case v of None \<Rightarrow> wp m Q E s | Some a \<Rightarrow> wp (f a) Q E s)"
  by (simp split: option.splits)

lemma wp_let: "wp (let v = a in f v) Q E s = wp (f a) Q E s"
  by simp

lemma wp_call:
  "wp (call st m) Q E (w, h)
     = wp m (\<lambda>v w'. Q v (w', h @ [Invoked st, Returned st])) (\<lambda>x w'. E x (w', h @ [Invoked st])) w"
  by (simp add: wp_def call_def split: prod.splits sum.splits)

lemma wp_on_world:
  "wp (on_world m) Q E (w, h) = wp m (\<lambda>v w'. Q v (w', h)) (\<lambda>x w'. E x (w', h)) w"
  by (simp add: wp_def on_world_def split: prod.splits sum.splits)

lemma wp_run: "m s = (r, s') \<Longrightarrow> wp m (\<lambda>v. P) (\<lambda>x. P) s \<Longrightarrow> P s'"
  by (simp add: wp_def split: sum.splits)

lemma wp_quiet:
  assumes "quiet m"
    and "\<And>v w'. usage_updates w' = usage_updates w \<Longrightarrow> Q v w'"
    and "\<And>x w'. usage_updates w' = usage_updates w \<Longrightarrow> E x w'"
  shows "wp m Q E w"
proof -
  have "usage_updates (snd (m w)) = usage_updates w"
    using assms(1) by (simp add: quiet_def)
  then show ?thesis
    using assms(2,3) by (cases "m w") (auto simp add: wp_def split: sum.splits)
qed

lemma wp_unchanged:
  assumes "snd (m s) = s"
    and "\<And>v. Q v s"
    and "\<And>x. E x s"
  shows "wp m Q E s"
  using assms by (cases "m s") (auto simp add: wp_def split: sum.splits)

lemma quietI:
  assumes "\<And>w. wp m (\<lambda>v w'. usage_updates w' = usage_updates w)
             (\<lambda>x w'. usage_updates w' = usage_updates w) w"
  shows "quiet m"
  unfolding quiet_def
proof
  fix w
  show "usage_updates (snd (m w)) = usage_updates w"
    using assms [of w] by (cases "m w") (auto simp add: wp_def split: sum.splits)
qed

lemma unchangedI:
  assumes "wp m (\<lambda>v s'. s' = s) (\<lambda>x s'. s' = s) s"
  shows "snd (m s) = s"
  using assms by (cases "m s") (auto simp add: wp_def split: sum.splits)

lemma usage_updates_record_call [simp]:
  "usage_updates (record_call c w)
     = (if is_usage_update c then usage_updates w @ [c] else usage_updates w)"
  by (simp add: usage_updates_def record_call_def)

lemma usage_updates_files [simp]: "usage_updates (w\<lparr>files := fs\<rparr>) = usage_updates w"
  by (simp add: usage_updates_def)

lemma usage_updates_uuid_count [simp]: "usage_updates (w\<lparr>uuid_count := n\<rparr>) = usage_updates w"
  by (simp add: usage_updates_def)

subsection \<open>What the steps of the pipeline leave alone\<close>

lemma get_user_id_from_jwt_unchanged: "snd (get_user_id_from_jwt e creds s) = s"
  by (rule unchangedI)
     (simp add: get_user_id_from_jwt_def Let_def split: option.splits sum.splits)

lemma extract_pdf_unchanged: "snd (extract_pdf e fname body s) = s"
  by (rule unchangedI) (simp add: extract_pdf_def split: sum.splits prod.splits)

lemma extract_word_unchanged: "snd (extract_word e fname body s) = s"
  by (rule unchangedI) (simp add: extract_word_def split: sum.splits)

lemma extract_plain_unchanged: "snd (extract_plain body s) = s"
  by (simp add: extract_plain_def ret_def split: option.splits)

lemma unchanged_throw: "snd (throw x s) = s"
  by (simp add: throw_def)

lemma unchanged_if:
  "(b \<Longrightarrow> snd (m1 s) = s) \<Longrightarrow> (\<not> b \<Longrightarrow> snd (m2 s) = s) \<Longrightarrow> snd ((if b then m1 else m2) s) = s"
  by simp

lemma unchanged_try_except:
  assumes "snd (m s) = s" and "\<And>x. snd (h x s) = s"
  shows "snd (try_except m h s) = s"
  using assms by (cases "m s") (auto simp add: try_except_def split: sum.splits)

lemma extract_text_from_file_unchanged: "snd (extract_text_from_file e file s) = s"
  unfolding extract_text_from_file_def Let_def
  by (intro unchanged_if unchanged_try_except unchanged_throw extract_pdf_unchanged
        extract_word_unchanged extract_plain_unchanged)

lemma get_email_from_jwt_unchanged: "snd (get_email_from_jwt e creds s) = s"
  by (rule unchangedI)
     (simp add: get_email_from_jwt_def Let_def split: option.splits sum.splits)

lemma quiet_extract_text_from_file: "quiet (extract_text_from_file e file)"
  by (simp add: quiet_def extract_text_from_file_unchanged)

lemma wp_select_usage:
  "wp (select_usage e uid) Q E w
     = (case usage_select e uid of
          Inl x \<Rightarrow> E x (record_call (UsageSelect uid) w)
        | Inr v \<Rightarrow> Q v (record_call (UsageSelect uid) w))"
  by (simp add: wp_def select_usage_def split: sum.splits)

lemma wp_at_least:
  "wp (at_least c n) Q E s
     = (case c of IntVal v \<Rightarrow> Q (n \<le> v) s
        | Null \<Rightarrow> E (Raised TypeError
                        (py ''>= not supported between instances of NoneType and int'')) s)"
  by (cases c) simp_all

lemma quiet_check_user_usage_limits: "quiet (check_user_usage_limits e uid)"
  by (rule quietI)
     (simp add: check_user_usage_limits_def wp_select_usage wp_at_least Let_def
        split: sum.splits column.splits)

lemma wp_ainvoke:
  "wp (ainvoke ch inputs) Q E w
     = (case ch of
          None \<Rightarrow> E (Raised AttributeError (py ''NoneType object has no attribute ainvoke'')) w
        | Some c \<Rightarrow> (case c inputs of
                       Inl x \<Rightarrow> E x (record_call (ChainInvoke inputs) w)
                     | Inr v \<Rightarrow> Q v (record_call (ChainInvoke inputs) w)))"
  by (simp add: wp_def ainvoke_def split: option.splits sum.splits)

lemma quiet_generate_latex_resume: "quiet (generate_latex_resume e resume_content ch)"
  by (rule quietI)
     (simp add: generate_latex_resume_def wp_ainvoke
        split: option.splits sum.splits chain_output.splits)

lemma quiet_generate_tailored_resume:
  "quiet (generate_tailored_resume e resume_content job_description ch)"
  by (rule quietI)
     (simp add: generate_tailored_resume_def wp_ainvoke
        split: option.splits sum.splits chain_output.splits)

lemma wp_write_latex_to_file:
  "wp (write_latex_to_file e latex_content output_dir) Q E w
     = (let tex_path = os_path_join output_dir (uuid4 e (uuid_count w) @ py ''.tex'');
            w1 = w\<lparr>uuid_count := Suc (uuid_count w)\<rparr>
        in case utf8_encode latex_content of
             None \<Rightarrow> E (Raised UnicodeEncodeError (py ''surrogates not allowed''))
                       (w1\<lparr>files := (files w1)(tex_path \<mapsto> [])\<rparr>)
           | Some bs \<Rightarrow> Q tex_path (w1\<lparr>files := (files w1)(tex_path \<mapsto> bs)\<rparr>))"
  by (simp add: wp_def write_latex_to_file_def Let_def split: option.splits)

lemma wp_run_pdflatex_command:
  "wp (run_pdflatex_command e cmd dir) Q E w
     = (case pdflatex e cmd dir (files w) of
          (Inl x, fs) \<Rightarrow> E x (record_call (Pdflatex cmd dir) (w\<lparr>files := fs\<rparr>))
        | (Inr v, fs) \<Rightarrow> Q v (record_call (Pdflatex cmd dir) (w\<lparr>files := fs\<rparr>)))"
  by (simp add: wp_def run_pdflatex_command_def split: prod.splits sum.splits)

lemma wp_path_exists: "wp (path_exists p) Q E w = Q (files w p \<noteq> None) w"
  by (simp add: wp_def path_exists_def)

lemma wp_getsize:
  "wp (getsize p) Q E w
     = (case files w p of None \<Rightarrow> E (Raised FileNotFoundError p) w | Some bs \<Rightarrow> Q (length bs) w)"
  by (simp add: wp_def getsize_def split: option.splits)

lemma wp_read_binary:
  "wp (read_binary p) Q E w
     = (case files w p of None \<Rightarrow> E (Raised FileNotFoundError p) w | Some bs \<Rightarrow> Q bs w)"
  by (simp add: wp_def read_binary_def split: option.splits)

lemma wp_write_binary:
  "wp (write_binary p bs) Q E w = Q () (w\<lparr>files := (files w)(p \<mapsto> bs)\<rparr>)"
  by (simp add: wp_def write_binary_def)

lemma quiet_convert_latex_to_pdf: "quiet (convert_latex_to_pdf e latex_content)"
  by (rule quietI)
     (simp add: convert_latex_to_pdf_def wp_write_latex_to_file wp_run_pdflatex_command
        wp_path_exists wp_getsize wp_read_binary read_pdf_file_def Let_def
        split: option.splits sum.splits prod.splits)

lemma wp_storage_upload_call:
  "wp (storage_upload_call e dest body) Q E w
     = (case storage_upload e dest body of
          Some x \<Rightarrow> E x (record_call (StorageUpload dest body) w)
        | None \<Rightarrow> Q () (record_call (StorageUpload dest body) w))"
  by (simp add: wp_def storage_upload_call_def split: option.splits)

lemma wp_get_public_url:
  "wp (get_public_url e dest) Q E w
     = (case storage_get_public_url e dest of
          Inl x \<Rightarrow> E x (record_call (StorageGetPublicUrl dest) w)
        | Inr v \<Rightarrow> Q v (record_call (StorageGetPublicUrl dest) w))"
  by (simp add: wp_def get_public_url_def split: sum.splits)

lemma quiet_upload_pdf_to_bucket: "quiet (upload_pdf_to_bucket e file_path dest_filename)"
  by (rule quietI)
     (simp add: upload_pdf_to_bucket_def wp_read_binary wp_storage_upload_call wp_get_public_url
        split: option.splits sum.splits)

lemma quiet_insert_resume_record: "quiet (insert_resume_record e link uid)"
  by (simp add: quiet_def insert_resume_record_def try_except_def throw_def Let_def
      split: option.splits)

lemma wp_send_email:
  "wp (send_email e params) Q E w
     = (case resend_send e params of
          Some x \<Rightarrow> E x (record_call (ResendSend params) w)
        | None \<Rightarrow> Q () (record_call (ResendSend params) w))"
  by (simp add: wp_def send_email_def split: option.splits)

lemma quiet_send_resume_conversion_notification:
  "quiet (send_resume_conversion_notification e creds link conversion_type)"
proof (rule quietI)
  fix w :: world
  have same: "wp (get_email_from_jwt e creds) Q E w"
    if "\<And>v. Q v w" and "\<And>x. E x w" for Q E
    using get_email_from_jwt_unchanged that by (rule wp_unchanged)
  show "wp (send_resume_conversion_notification e creds link conversion_type)
          (\<lambda>v w'. usage_updates w' = usage_updates w) (\<lambda>x w'. usage_updates w' = usage_updates w) w"
    by (simp add: send_resume_conversion_notification_def, rule same)
       (simp_all add: send_resume_conversion_email_def wp_send_email split: option.splits)
qed

lemma quiet_cleanup_generated_files: "quiet (cleanup_generated_files e pdf_filename)"
  by (simp add: quiet_def cleanup_generated_files_def Let_def)

lemma quiet_path_exists: "quiet (path_exists p)"
  by (simp add: quiet_def path_exists_def)

lemma quiet_write_binary: "quiet (write_binary p bs)"
  by (simp add: quiet_def write_binary_def)

lemmas quiet_steps = quiet_check_user_usage_limits quiet_extract_text_from_file
  quiet_generate_latex_resume quiet_generate_tailored_resume quiet_convert_latex_to_pdf
  quiet_upload_pdf_to_bucket quiet_insert_resume_record
  quiet_send_resume_conversion_notification quiet_cleanup_generated_files quiet_path_exists
  quiet_write_binary

lemma wp_bindI: "wp m (\<lambda>v. wp (f v) Q E) E s \<Longrightarrow> wp (bind m f) Q E s"
  by simp

lemma wp_try_exceptI: "wp m Q (\<lambda>x. wp (h x) Q E) s \<Longrightarrow> wp (try_except m h) Q E s"
  by simp

lemma wp_retI: "Q v s \<Longrightarrow> wp (ret v) Q E s"
  by simp

lemma wp_throwI: "E x s \<Longrightarrow> wp (throw x) Q E s"
  by simp

lemma wp_ifI:
  "(b \<Longrightarrow> wp m1 Q E s) \<Longrightarrow> (\<not> b \<Longrightarrow> wp m2 Q E s) \<Longrightarrow> wp (if b then m1 else m2) Q E s"
  by simp

lemma wp_case_prodI:
  "(\<And>a b. wp (f a b) Q E s) \<Longrightarrow> wp (case p of (a, b) \<Rightarrow> f a b) Q E s"
  by (simp split: prod.splits)

lemma wp_letI: "wp (f a) Q E s \<Longrightarrow> wp (Let a f) Q E s"
  by simp

lemma wp_callI:
  "wp m (\<lambda>v w'. Q v (w', h @ [Invoked st, Returned st])) (\<lambda>x w'. E x (w', h @ [Invoked st])) w
   \<Longrightarrow> wp (call st m) Q E (w, h)"
  by (simp add: wp_call)

lemma wp_on_worldI:
  "wp m (\<lambda>v w'. Q v (w', h)) (\<lambda>x w'. E x (w', h)) w \<Longrightarrow> wp (on_world m) Q E (w, h)"
  by (simp add: wp_on_world)

lemma wp_any:
  assumes "\<And>v s'. Q v s'" and "\<And>x s'. E x s'"
  shows "wp m Q E s"
  using assms by (cases "m s") (auto simp add: wp_def split: sum.splits)

lemma wp_increment_user_usage:
  assumes "\<And>v s'. Q v s'" and "\<And>x s'. E x s'"
  shows "wp (increment_user_usage e uid daily monthly) Q E s"
  using assms by (rule wp_any)

lemmas wp_steps = quiet_steps [THEN wp_quiet] wp_unchanged [OF get_user_id_from_jwt_unchanged]

lemmas wp_intros = wp_bindI wp_try_exceptI wp_retI wp_throwI wp_ifI wp_case_prodI wp_letI
  wp_callI wp_on_worldI

lemma convert_to_latex_endpoint_history:
  assumes run: "convert_to_latex_endpoint e creds resume_file (w, []) = (r, (w', h))"
  shows "(Invoked UploadPdf \<in> set h \<longrightarrow> subseq [Returned ConvertPdf, Invoked UploadPdf] h)
    \<and> (Invoked InsertRecord \<in> set h \<longrightarrow> subseq [Returned ConvertPdf, Invoked InsertRecord] h)
    \<and> (Invoked IncrementUsage \<in> set h \<longrightarrow>
         subseq [Returned ExtractText, Returned GenerateLatex, Returned ConvertPdf,
                 Returned UploadPdf, Returned InsertRecord, Invoked IncrementUsage] h)
    \<and> (\<forall>s \<in> {ExtractText, GenerateLatex, ConvertPdf, UploadPdf, InsertRecord}.
          Invoked s \<in> set h \<and> Returned s \<notin> set h \<longrightarrow> Invoked IncrementUsage \<notin> set h)
    \<and> (Invoked IncrementUsage \<notin> set h \<longrightarrow> usage_updates w' = usage_updates w)"
proof -
  define G :: "request_state \<Rightarrow> bool" where
    "G = (\<lambda>(v, t).
      (Invoked UploadPdf \<in> set t \<longrightarrow> subseq [Returned ConvertPdf, Invoked UploadPdf] t)
    \<and> (Invoked InsertRecord \<in> set t \<longrightarrow> subseq [Returned ConvertPdf, Invoked InsertRecord] t)
    \<and> (Invoked IncrementUsage \<in> set t \<longrightarrow>
         subseq [Returned ExtractText, Returned GenerateLatex, Returned ConvertPdf,
                 Returned UploadPdf, Returned InsertRecord, Invoked IncrementUsage] t)
    \<and> (\<forall>s \<in> {ExtractText, GenerateLatex, ConvertPdf, UploadPdf, InsertRecord}.
          Invoked s \<in> set t \<and> Returned s \<notin> set t \<longrightarrow> Invoked IncrementUsage \<notin> set t)
    \<and> (Invoked IncrementUsage \<notin> set t \<longrightarrow> usage_updates v = usage_updates w))"
  have "wp (convert_to_latex_endpoint e creds resume_file) (\<lambda>v. G) (\<lambda>x. G) (w, [])"
    unfolding convert_to_latex_endpoint_def notify_def
    apply (rule wp_bindI)
    apply (rule wp_unchanged [OF get_user_id_from_jwt_unchanged])
     apply (intro wp_intros wp_steps wp_increment_user_usage)
                      apply (simp_all add: G_def)
    done
  from wp_run [OF run this] show ?thesis
    by (simp add: G_def)
qed

lemma convert_json_to_latex_endpoint_history:
  assumes run: "convert_json_to_latex_endpoint e resume creds (w, []) = (r, (w', h))"
  shows "(Invoked UploadPdf \<in> set h \<longrightarrow> subseq [Returned ConvertPdf, Invoked UploadPdf] h)
    \<and> (Invoked InsertRecord \<in> set h \<longrightarrow> subseq [Returned ConvertPdf, Invoked InsertRecord] h)
    \<and> (Invoked IncrementUsage \<in> set h \<longrightarrow>
         subseq [Returned GenerateLatex, Returned ConvertPdf, Returned UploadPdf,
                 Returned InsertRecord, Invoked IncrementUsage] h)
    \<and> (\<forall>s \<in> {GenerateLatex, ConvertPdf, UploadPdf, InsertRecord}.
          Invoked s \<in> set h \<and> Returned s \<notin> set h \<longrightarrow> Invoked IncrementUsage \<notin> set h)
    \<and> (Invoked IncrementUsage \<notin> set h \<longrightarrow> usage_updates w' = usage_updates w)"
proof -
  define G :: "request_state \<Rightarrow> bool" where
    "G = (\<lambda>(v, t).
      (Invoked UploadPdf \<in> set t \<longrightarrow> subseq [Returned ConvertPdf, Invoked UploadPdf] t)
    \<and> (Invoked InsertRecord \<in> set t \<longrightarrow> subseq [Returned ConvertPdf, Invoked InsertRecord] t)
    \<and> (Invoked IncrementUsage \<in> set t \<longrightarrow>
         subseq [Returned GenerateLatex, Returned ConvertPdf, Returned UploadPdf,
                 Returned InsertRecord, Invoked IncrementUsage] t)
    \<and> (\<forall>s \<in> {GenerateLatex, ConvertPdf, UploadPdf, InsertRecord}.
          Invoked s \<in> set t \<and> Returned s \<notin> set t \<longrightarrow> Invoked IncrementUsage \<notin> set t)
    \<and> (Invoked IncrementUsage \<notin> set t \<longrightarrow> usage_updates v = usage_updates w))"
  have "wp (convert_json_to_latex_endpoint e resume creds) (\<lambda>v. G) (\<lambda>x. G) (w, [])"
    unfolding convert_json_to_latex_endpoint_def notify_def reraise_as_http_def
    apply (rule wp_bindI)
    apply (rule wp_unchanged [OF get_user_id_from_jwt_unchanged])
     apply (intro wp_intros wp_steps wp_increment_user_usage)
                      apply (simp_all add: G_def)
    done
  from wp_run [OF run this] show ?thesis
    by (simp add: G_def)
qed

lemma convert_latex_to_pdf_result_nonempty:
  assumes "convert_latex_to_pdf e latex_content w = (Inr (pdf_content, pdf_filename), w')"
  shows "pdf_content \<noteq> []"
proof -
  have "wp (convert_latex_to_pdf e latex_content) (\<lambda>v s. fst v \<noteq> []) (\<lambda>x s. True) w"
    by (simp add: convert_latex_to_pdf_def wp_write_latex_to_file wp_run_pdflatex_command
        wp_path_exists wp_getsize wp_read_binary read_pdf_file_def Let_def
        split: option.splits sum.splits prod.splits)
  then show ?thesis
    using assms by (simp add: wp_def)
qed



subsection \<open>The conversion endpoints\<close>

text \<open>
  C2. Take a run of the \<open>/convert-latex\<close> handler, or of the \<open>/convert-json-to-latex\<close>
  handler, from a state \<open>w\<close> with an empty history to a state \<open>w'\<close> with history
  \<open>h\<close>. If the upload or the insertion of the record was invoked, the call of
  \<open>convert_latex_to_pdf\<close> had returned before. If \<open>increment_user_usage\<close> was invoked,
  then extraction (which the JSON endpoint does not have: it serialises its input),
  generation, compilation, upload and insertion had all returned before, in this order. If
  one of these steps was invoked and did not return, \<open>increment_user_usage\<close> was not
  invoked, and whenever it was not invoked the request has made no update of the usage
  counters. Finally, \<open>convert_latex_to_pdf\<close> returns only with a non-empty PDF.
\<close>

theorem usage_incremented_only_after_pipeline:
  "(convert_to_latex_endpoint e creds resume_file (w, []) = (r, (w', h)) \<longrightarrow>
      (Invoked UploadPdf \<in> set h \<longrightarrow> subseq [Returned ConvertPdf, Invoked UploadPdf] h)
    \<and> (Invoked InsertRecord \<in> set h \<longrightarrow> subseq [Returned ConvertPdf, Invoked InsertRecord] h)
    \<and> (Invoked IncrementUsage \<in> set h \<longrightarrow>
         subseq [Returned ExtractText, Returned GenerateLatex, Returned ConvertPdf,
                 Returned UploadPdf, Returned InsertRecord, Invoked IncrementUsage] h)
    \<and> (\<forall>s \<in> {ExtractText, GenerateLatex, ConvertPdf, UploadPdf, InsertRecord}.
          Invoked s \<in> set h \<and> Returned s \<notin> set h \<longrightarrow> Invoked IncrementUsage \<notin> set h)
    \<and> (Invoked IncrementUsage \<notin> set h \<longrightarrow> usage_updates w' = usage_updates w))
   \<and> (convert_json_to_latex_endpoint e resume creds (w, []) = (r2, (w2, h2)) \<longrightarrow>
      (Invoked UploadPdf \<in> set h2 \<longrightarrow> subseq [Returned ConvertPdf, Invoked UploadPdf] h2)
    \<and> (Invoked InsertRecord \<in> set h2 \<longrightarrow> subseq [Returned ConvertPdf, Invoked InsertRecord] h2)
    \<and> (Invoked IncrementUsage \<in> set h2 \<longrightarrow>
         subseq [Returned GenerateLatex, Returned ConvertPdf, Returned UploadPdf,
                 Returned InsertRecord, Invoked IncrementUsage] h2)
    \<and> (\<forall>s \<in> {GenerateLatex, ConvertPdf, UploadPdf, InsertRecord}.
          Invoked s \<in> set h2 \<and> Returned s \<notin> set h2 \<longrightarrow> Invoked IncrementUsage \<notin> set h2)
    \<and> (Invoked IncrementUsage \<notin> set h2 \<longrightarrow> usage_updates w2 = usage_updates w))
   \<and> (convert_latex_to_pdf e latex_content v = (Inr (pdf_content, pdf_filename), v') \<longrightarrow>
      pdf_content \<noteq> [])"
  using convert_to_latex_endpoint_history [of e creds resume_file w r w' h]
    convert_json_to_latex_endpoint_history [of e resume creds w r2 w2 h2]
    convert_latex_to_pdf_result_nonempty [of e latex_content v pdf_content pdf_filename v']
  by blast

lemmas run_defs = notify_def call_def on_world_def prog_defs
  get_user_id_from_jwt_def check_user_usage_limits_def select_usage_def get_counter_def
  falsy_def supported_resume_name_def str_of_option_def extract_text_from_file_def
  is_pdf_upload_def is_word_upload_def is_text_upload_def extract_plain_def utf8_decode_def
  MAX_FILE_SIZE_def generate_latex_resume_def ainvoke_def sample_chain_def
  strip_code_fence_def slice_from_def slice_to_def convert_latex_to_pdf_def
  write_latex_to_file_def utf8_encode_def utf8_encode_char_def run_pdflatex_command_def
  sample_pdflatex_def path_defs build_pdflatex_command_def path_exists_def getsize_def
  read_pdf_file_def read_binary_def write_binary_def upload_pdf_to_bucket_def
  storage_upload_call_def get_public_url_def insert_resume_record_def
  send_resume_conversion_notification_def get_email_from_jwt_def cleanup_generated_files_def
  increment_user_usage_def update_usage_def record_call_def sample_env_def empty_world_def
  ascii_lower_def reraise_as_http_def

lemma sample_convert_history:
  "snd (snd (convert_to_latex_endpoint (sample_env\<lparr>auth_secret := Some (py ''key'')\<rparr>)
     \<lparr>scheme = py ''Bearer'', credentials = py ''token''\<rparr>
     \<lparr>filename = Some (py ''cv.md''), content_type = Some (py ''text/markdown''),
      file_content = [0x68, 0x69]\<rparr> (empty_world, [])))
   = [Invoked CheckUsage, Returned CheckUsage, Invoked ExtractText, Returned ExtractText,
      Invoked GenerateLatex, Returned GenerateLatex, Invoked ConvertPdf, Returned ConvertPdf,
      Invoked UploadPdf, Returned UploadPdf, Invoked InsertRecord, Returned InsertRecord,
      Invoked SendNotification, Returned SendNotification,
      Invoked IncrementUsage, Returned IncrementUsage]"
  by (simp add: convert_to_latex_endpoint_def run_defs)

lemma sample_json_history:
  "snd (snd (convert_json_to_latex_endpoint (sample_env\<lparr>auth_secret := Some (py ''key'')\<rparr>)
     sample_resume \<lparr>scheme = py ''Bearer'', credentials = py ''token''\<rparr> (empty_world, [])))
   = [Invoked CheckUsage, Returned CheckUsage,
      Invoked GenerateLatex, Returned GenerateLatex, Invoked ConvertPdf, Returned ConvertPdf,
      Invoked UploadPdf, Returned UploadPdf, Invoked InsertRecord, Returned InsertRecord,
      Invoked SendNotification, Returned SendNotification,
      Invoked IncrementUsage, Returned IncrementUsage]"
  by (simp add: convert_json_to_latex_endpoint_def run_defs)

theorem usage_incremented_only_after_pipeline_witness:
  "(\<exists>r w' h. convert_to_latex_endpoint (sample_env\<lparr>auth_secret := Some (py ''key'')\<rparr>)
       \<lparr>scheme = py ''Bearer'', credentials = py ''token''\<rparr>
       \<lparr>filename = Some (py ''cv.md''), content_type = Some (py ''text/markdown''),
        file_content = [0x68, 0x69]\<rparr> (empty_world, []) = (r, (w', h))
     \<and> Invoked UploadPdf \<in> set h \<and> Invoked IncrementUsage \<in> set h
     \<and> subseq [Returned ConvertPdf, Invoked UploadPdf] h
     \<and> subseq [Returned ExtractText, Returned GenerateLatex, Returned ConvertPdf,
                Returned UploadPdf, Returned InsertRecord, Invoked IncrementUsage] h)
   \<and> (\<exists>r w' h. convert_json_to_latex_endpoint (sample_env\<lparr>auth_secret := Some (py ''key'')\<rparr>)
       sample_resume \<lparr>scheme = py ''Bearer'', credentials = py ''token''\<rparr> (empty_world, [])
         = (r, (w', h))
     \<and> Invoked UploadPdf \<in> set h \<and> Invoked IncrementUsage \<in> set h
     \<and> subseq [Returned ConvertPdf, Invoked UploadPdf] h
     \<and> subseq [Returned GenerateLatex, Returned ConvertPdf,
                Returned UploadPdf, Returned InsertRecord, Invoked IncrementUsage] h)"
proof -
  obtain r w' h where run:
    "convert_to_latex_endpoint (sample_env\<lparr>auth_secret := Some (py ''key'')\<rparr>)
       \<lparr>scheme = py ''Bearer'', credentials = py ''token''\<rparr>
       \<lparr>filename = Some (py ''cv.md''), content_type = Some (py ''text/markdown''),
        file_content = [0x68, 0x69]\<rparr> (empty_world, []) = (r, (w', h))"
    by (metis surj_pair)
  have "h = [Invoked CheckUsage, Returned CheckUsage, Invoked ExtractText, Returned ExtractText,
      Invoked GenerateLatex, Returned GenerateLatex, Invoked ConvertPdf, Returned ConvertPdf,
      Invoked UploadPdf, Returned UploadPdf, Invoked InsertRecord, Returned InsertRecord,
      Invoked SendNotification, Returned SendNotification,
      Invoked IncrementUsage, Returned IncrementUsage]"
    using sample_convert_history run by simp
  then have invoked: "Invoked UploadPdf \<in> set h" "Invoked IncrementUsage \<in> set h"
    by simp_all
  have "subseq [Returned ConvertPdf, Invoked UploadPdf] h
     \<and> subseq [Returned ExtractText, Returned GenerateLatex, Returned ConvertPdf,
                Returned UploadPdf, Returned InsertRecord, Invoked IncrementUsage] h"
    using usage_incremented_only_after_pipeline
      [of "sample_env\<lparr>auth_secret := Some (py ''key'')\<rparr>"
          "\<lparr>scheme = py ''Bearer'', credentials = py ''token''\<rparr>"
          "\<lparr>filename = Some (py ''cv.md''), content_type = Some (py ''text/markdown''),
            file_content = [0x68, 0x69]\<rparr>" empty_world r w' h] run invoked
    by blast
  with run invoked have first:
    "\<exists>r w' h. convert_to_latex_endpoint (sample_env\<lparr>auth_secret := Some (py ''key'')\<rparr>)
       \<lparr>scheme = py ''Bearer'', credentials = py ''token''\<rparr>
       \<lparr>filename = Some (py ''cv.md''), content_type = Some (py ''text/markdown''),
        file_content = [0x68, 0x69]\<rparr> (empty_world, []) = (r, (w', h))
     \<and> Invoked UploadPdf \<in> set h \<and> Invoked IncrementUsage \<in> set h
     \<and> subseq [Returned ConvertPdf, Invoked UploadPdf] h
     \<and> subseq [Returned ExtractText, Returned GenerateLatex, Returned ConvertPdf,
                Returned UploadPdf, Returned InsertRecord, Invoked IncrementUsage] h"
    by blast
  obtain r2 w2 h2 where run2:
    "convert_json_to_latex_endpoint (sample_env\<lparr>auth_secret := Some (py ''key'')\<rparr>)
       sample_resume \<lparr>scheme = py ''Bearer'', credentials = py ''token''\<rparr> (empty_world, [])
         = (r2, (w2, h2))"
    by (metis surj_pair)
  have "h2 = [Invoked CheckUsage, Returned CheckUsage,
      Invoked GenerateLatex, Returned GenerateLatex, Invoked ConvertPdf, Returned ConvertPdf,
      Invoked UploadPdf, Returned UploadPdf, Invoked InsertRecord, Returned InsertRecord,
      Invoked SendNotification, Returned SendNotification,
      Invoked IncrementUsage, Returned IncrementUsage]"
    using sample_json_history run2 by simp
  then have invoked2: "Invoked UploadPdf \<in> set h2" "Invoked IncrementUsage \<in> set h2"
    by simp_all
  have "subseq [Returned ConvertPdf, Invoked UploadPdf] h2
     \<and> subseq [Returned GenerateLatex, Returned ConvertPdf,
                Returned UploadPdf, Returned InsertRecord, Invoked IncrementUsage] h2"
    using usage_incremented_only_after_pipeline
      [where e = "sample_env\<lparr>auth_secret := Some (py ''key'')\<rparr>"
         and resume = sample_resume
         and creds = "\<lparr>scheme = py ''Bearer'', credentials = py ''token''\<rparr>"
         and w = empty_world and ?r2.0 = r2 and ?w2.0 = w2 and ?h2.0 = h2] run2 invoked2
    by blast
  with run2 invoked2 have second:
    "\<exists>r w' h. convert_json_to_latex_endpoint (sample_env\<lparr>auth_secret := Some (py ''key'')\<rparr>)
       sample_resume \<lparr>scheme = py ''Bearer'', credentials = py ''token''\<rparr> (empty_world, [])
         = (r, (w', h))
     \<and> Invoked UploadPdf \<in> set h \<and> Invoked IncrementUsage \<in> set h
     \<and> subseq [Returned ConvertPdf, Invoked UploadPdf] h
     \<and> subseq [Returned GenerateLatex, Returned ConvertPdf,
                Returned UploadPdf, Returned InsertRecord, Invoked IncrementUsage] h"
    by blast
  from first second show ?thesis by (rule conjI)
qed

end
